theory Spec2Isabelle
  imports Main "HOL-Library.Word" "HOL-Library.AList" "HOL-Library.Multiset"
begin

section \<open>Data model of the Mach-O symbol table\<close>

text \<open>
  The development embeds \<^verbatim>\<open>lld/MachO/SymbolTable.cpp\<close>. The classes
  \<^verbatim>\<open>InputFile\<close>, \<^verbatim>\<open>Symbol\<close> and its subclasses are declared in
  headers (InputFiles.h, Symbols.h) that are not part of the captured sources; their
  fields are taken from the data model of the specification (section 3) and from the
  accesses the code makes.
\<close>

type_synonym u64 = "64 word"
type_synonym u32 = "32 word"

text \<open>Opaque handles: an input section and an archive symbol (the fetch cookie).\<close>

type_synonym InputSection = nat
type_synonym ArchiveSymbol = nat

text \<open>
  Modelled from the spec: the kinds of an input file (section 3: Obj, Dylib, Archive,
  Bitcode, Synthetic); the enumeration is declared in InputFiles.h.
\<close>

datatype Kind = ObjKind | DylibKind | ArchiveKind | BitcodeKind | SyntheticKind

text \<open>
  Modelled from the spec: the handle of an input file (section 3), with what the code
  reads of it: \<^verbatim>\<open>kind()\<close> (behind \<^verbatim>\<open>isa<ObjFile>\<close>, \<^verbatim>\<open>isa<DylibFile>\<close>,
  \<^verbatim>\<open>isa<BitcodeFile>\<close>), \<^verbatim>\<open>priority\<close> and the flag \<^verbatim>\<open>lazyArchiveMember\<close>.
  The declared type of \<^verbatim>\<open>priority\<close> is not in the sources; it is a natural number
  here. \<open>fileId\<close> tells two files apart. A null \<^verbatim>\<open>InputFile *\<close> is \<open>None\<close>.
\<close>

record InputFile =
  fileId :: string
  kind :: Kind
  priority :: nat
  lazyArchiveMember :: bool

text \<open>
  Modelled from the spec: the reference states, declared in Symbols.h, and their order
  \<open>Unreferenced < Weak < Strong\<close> (section 3), which \<^verbatim>\<open>std::max\<close> compares by.
\<close>

datatype RefState = Unreferenced | Weak | Strong

fun refLevel :: "RefState \<Rightarrow> nat" where
  "refLevel Unreferenced = 0"
| "refLevel Weak = 1"
| "refLevel Strong = 2"

instantiation RefState :: linorder
begin

definition less_eq_RefState :: "RefState \<Rightarrow> RefState \<Rightarrow> bool" where
  "less_eq_RefState a b = (refLevel a \<le> refLevel b)"

definition less_RefState :: "RefState \<Rightarrow> RefState \<Rightarrow> bool" where
  "less_RefState a b = (refLevel a < refLevel b)"

instance
proof
  fix x y z :: RefState
  show "(x < y) = (x \<le> y \<and> \<not> y \<le> x)"
    by (auto simp: less_eq_RefState_def less_RefState_def)
  show "x \<le> x"
    by (simp add: less_eq_RefState_def)
  show "x \<le> y \<Longrightarrow> y \<le> z \<Longrightarrow> x \<le> z"
    by (simp add: less_eq_RefState_def)
  show "x \<le> y \<Longrightarrow> y \<le> x \<Longrightarrow> x = y"
    by (cases x; cases y) (auto simp: less_eq_RefState_def)
  show "x \<le> y \<or> y \<le> x"
    by (auto simp: less_eq_RefState_def)
qed

end

text \<open>
  Modelled from the spec: the fields of a \<^verbatim>\<open>Defined\<close> beyond the shared header
  (section 3), in the order of the arguments of \<^verbatim>\<open>replaceSymbol<Defined>\<close>.
\<close>

record DefinedData =
  isec :: "InputSection option"
  symValue :: u64
  symSize :: u64
  weakDef :: bool
  external :: bool
  privateExtern :: bool
  includeInSymtab :: bool
  thumb :: bool
  referencedDynamically :: bool
  noDeadStrip :: bool
  overridesWeakDef :: bool
  weakDefCanBeHidden :: bool
  interposable :: bool

text \<open>
  Modelled from the spec: the variants of a slot (section 3), with the arguments the
  code constructs them from. \<open>Blank\<close> is the value-initialised \<^verbatim>\<open>SymbolUnion\<close>
  that \<^verbatim>\<open>insert\<close> allocates for a new name, before any \<^verbatim>\<open>replaceSymbol\<close>.
\<close>

datatype SymBody =
    Blank
  | Defined DefinedData
  | Undefined (refState: RefState) (wasBitcodeSymbol: bool)
  | CommonSymbol (commonSize: u64) (commonAlign: u32) (commonPrivateExtern: bool)
  | DylibSymbol (dylibWeakDef: bool) (dylibRefState: RefState) (dylibIsTlv: bool)
  | LazyArchive ArchiveSymbol
  | LazyObject

text \<open>
  Modelled from the spec: the header every variant shares (name, file and the sticky
  \<open>isUsedInRegularObj\<close>), and the variant.
\<close>

record Symbol =
  symName :: string
  symFile :: "InputFile option"
  isUsedInRegularObj :: bool
  body :: SymBody

text \<open>The record \<^verbatim>\<open>DuplicateSymbolDiag\<close>; \<open>dupSym\<close> is the slot it points to.\<close>

record DuplicateSymbolDiag =
  src1 :: "string \<times> string"
  src2 :: "string \<times> string"
  dupSym :: string

text \<open>The record \<^verbatim>\<open>UndefinedDiag\<close>.\<close>

record UndefinedDiag =
  codeReferences :: "(InputSection \<times> u64) list"
  otherReferences :: "string list"

text \<open>
  The process-wide state: \<^verbatim>\<open>symMap\<close> (a slot pointer is the name that keys it; the
  list order stands for the iteration order of the hash map), the pools
  \<^verbatim>\<open>dupSymDiags\<close> and \<^verbatim>\<open>undefs\<close> (keyed by the \<^verbatim>\<open>Undefined\<close> the pointer
  refers to, in insertion order), the log of the calls made to the archive fetch hook, and
  the reference count of each dylib.
\<close>

record State =
  symMap :: "(string \<times> Symbol) list"
  dupSymDiags :: "DuplicateSymbolDiag list"
  undefs :: "(Symbol \<times> UndefinedDiag) list"
  fetchLog :: "(InputFile \<times> ArchiveSymbol) list"
  numReferencedSymbols :: "InputFile \<Rightarrow> int"

text \<open>
  Modelled from the spec: the values of the configuration that the code compares with
  (section 6; Config.h is not among the sources).
\<close>

datatype NamespaceKind = twolevel | flat

datatype HeaderFileType = MH_OBJECT | MH_EXECUTE | MH_DYLIB | MH_BUNDLE

datatype UndefinedSymbolTreatment = error | warning | suppress | dynamic_lookup

text \<open>A null-pointer read and a failed \<^verbatim>\<open>assert\<close> end the call.\<close>

datatype failure = NullDeref | AssertionFailed

text \<open>
  The parameters of the code: the frozen \<^verbatim>\<open>config\<close> snapshot and the external
  contracts it calls (section 6 of the specification): \<^verbatim>\<open>toString\<close> of a file and
  of a symbol, \<^verbatim>\<open>Defined::getSourceLocation\<close>, the source location and the location
  of a section offset, the liveness query, the function name the Itanium partial
  demangler gives (\<open>None\<close> when \<^verbatim>\<open>partialDemangle\<close> fails or there is no function
  name), the \<^verbatim>\<open>symbols\<close> vector of a file, and what \<^verbatim>\<open>ArchiveFile::fetch\<close> does
  to the state (it may call back into the table). \<^verbatim>\<open>toString\<close> of a symbol and
  \<^verbatim>\<open>isLive\<close> take the name of the symbol.
\<close>

record Env =
  namespaceKind :: NamespaceKind
  outputType :: HeaderFileType
  deadStripDuplicates :: bool
  undefinedSymbolTreatment :: UndefinedSymbolTreatment
  archMultiple :: bool
  archName :: string
  fileToString :: "InputFile option \<Rightarrow> string"
  symToString :: "string \<Rightarrow> string"
  definedSourceLocation :: "Symbol \<Rightarrow> string"
  getSourceLocation :: "InputSection \<Rightarrow> u64 \<Rightarrow> string"
  getLocation :: "InputSection \<Rightarrow> u64 \<Rightarrow> string"
  isLive :: "string \<Rightarrow> bool"
  getFunctionName :: "string \<Rightarrow> string option"
  fileSymbols :: "InputFile \<Rightarrow> Symbol option list"
  fetchArchiveMember :: "InputFile \<Rightarrow> ArchiveSymbol \<Rightarrow> State \<Rightarrow> failure + State"

section \<open>Rank, lookup and insertion\<close>

text \<open>
  \<^verbatim>\<open>getRank\<close>: the class in the bits from 24 up, plus the priority, in the
  64-bit return type.
\<close>

fun getRank :: "InputFile option \<Rightarrow> bool \<Rightarrow> bool \<Rightarrow> u64" where
  "getRank None isCommon isWeak = push_bit 24 7"
| "getRank (Some file) isCommon isWeak =
     (if isCommon then
        (if lazyArchiveMember file then push_bit 24 6 + of_nat (priority file)
         else push_bit 24 5 + of_nat (priority file))
      else if kind file = DylibKind \<or> lazyArchiveMember file then
        (if isWeak then push_bit 24 4 + of_nat (priority file)
         else push_bit 24 3 + of_nat (priority file))
      else if isWeak then push_bit 24 2 + of_nat (priority file)
      else push_bit 24 1 + of_nat (priority file))"

definition find_sym :: "State \<Rightarrow> string \<Rightarrow> Symbol option" where
  "find_sym st name = map_of (symMap st) name"

text \<open>\<^verbatim>\<open>!file || isa<ObjFile>(file)\<close>\<close>

fun nullOrObj :: "InputFile option \<Rightarrow> bool" where
  "nullOrObj None = True"
| "nullOrObj (Some f) = (kind f = ObjKind)"

text \<open>
  \<^verbatim>\<open>SymbolTable::insert\<close>: the slot as the caller sees it, \<^verbatim>\<open>wasInserted\<close>, and
  the table with the sticky flag or-ed in.
\<close>

definition insert_sym ::
  "string \<Rightarrow> InputFile option \<Rightarrow> State \<Rightarrow> Symbol \<times> bool \<times> State" where
  "insert_sym name file st =
     (case map_of (symMap st) name of
        Some s0 \<Rightarrow>
          (let s = s0\<lparr>isUsedInRegularObj := isUsedInRegularObj s0 \<or> nullOrObj file\<rparr>
           in (s, False, st\<lparr>symMap := AList.update name s (symMap st)\<rparr>))
      | None \<Rightarrow>
          (let s = \<lparr>symName = [], symFile = None,
                    isUsedInRegularObj = nullOrObj file, body = Blank\<rparr>
           in (s, True, st\<lparr>symMap := symMap st @ [(name, s)]\<rparr>)))"

text \<open>
  Modelled from the spec: \<^verbatim>\<open>replaceSymbol\<close> (declared in Symbols.h, which is not
  among the sources) overwrites the slot in place with the new variant; the slot keeps
  its address and the sticky \<open>isUsedInRegularObj\<close>.
\<close>

definition replaceSymbol ::
  "string \<Rightarrow> string \<Rightarrow> InputFile option \<Rightarrow> SymBody \<Rightarrow> State \<Rightarrow> State" where
  "replaceSymbol slot name file b st =
     st\<lparr>symMap := AList.map_entry slot
            (\<lambda>s. \<lparr>symName = name, symFile = file,
                  isUsedInRegularObj = isUsedInRegularObj s, body = b\<rparr>) (symMap st)\<rparr>"

text \<open>A write through the slot pointer to the fields of the variant.\<close>

definition setBody :: "string \<Rightarrow> SymBody \<Rightarrow> State \<Rightarrow> State" where
  "setBody slot b st = st\<lparr>symMap := AList.map_entry slot (\<lambda>s. s\<lparr>body := b\<rparr>) (symMap st)\<rparr>"

section \<open>Resolution of definitions\<close>

text \<open>
  Modelled from the spec: \<^verbatim>\<open>DylibSymbol::unreference\<close> (Symbols.h, not among the
  sources) drops the reference count of the owning dylib; a dynamic-lookup symbol has no
  file.
\<close>

definition unreference :: "Symbol \<Rightarrow> State \<Rightarrow> State" where
  "unreference s st =
     (case symFile s of
        None \<Rightarrow> st
      | Some f \<Rightarrow>
          st\<lparr>numReferencedSymbols := (numReferencedSymbols st)(f := numReferencedSymbols st f - 1)\<rparr>)"

text \<open>
  The \<^verbatim>\<open>Defined\<close> that both \<^verbatim>\<open>replaceSymbol<Defined>\<close> calls of
  \<^verbatim>\<open>addDefined\<close> construct: \<^verbatim>\<open>isExternal\<close> and \<^verbatim>\<open>includeInSymtab\<close> are true,
  \<^verbatim>\<open>interposable\<close> is computed from the configuration.
\<close>

definition mkDefined ::
  "Env \<Rightarrow> InputSection option \<Rightarrow> u64 \<Rightarrow> u64 \<Rightarrow> bool \<Rightarrow> bool \<Rightarrow> bool \<Rightarrow> bool \<Rightarrow> bool \<Rightarrow> bool \<Rightarrow> bool
     \<Rightarrow> DefinedData" where
  "mkDefined env sec val sz isWeakDef isPrivateExtern isThumb isReferencedDynamically
       isNoDeadStrip overrides isWeakDefCanBeHidden =
     \<lparr>isec = sec, symValue = val, symSize = sz, weakDef = isWeakDef, external = True,
      privateExtern = isPrivateExtern, includeInSymtab = True, thumb = isThumb,
      referencedDynamically = isReferencedDynamically, noDeadStrip = isNoDeadStrip,
      overridesWeakDef = overrides, weakDefCanBeHidden = isWeakDefCanBeHidden,
      interposable = (namespaceKind env = flat \<and> outputType env \<noteq> MH_EXECUTE
                      \<and> \<not> isPrivateExtern)\<rparr>"

text \<open>\<^verbatim>\<open>assert(!file || !isa<BitcodeFile>(file) || !isec)\<close>\<close>

fun bitcodeHasNoSection :: "InputFile option \<Rightarrow> InputSection option \<Rightarrow> bool" where
  "bitcodeHasNoSection None sec = True"
| "bitcodeHasNoSection (Some f) sec = (kind f \<noteq> BitcodeKind \<or> sec = None)"

text \<open>
  \<^verbatim>\<open>SymbolTable::addDefined\<close>. The result is the returned \<^verbatim>\<open>Defined *\<close>
  (\<open>None\<close> is \<^verbatim>\<open>nullptr\<close>, \<open>Some n\<close> the slot of name \<open>n\<close>) and the state
  afterwards. In the \<^verbatim>\<open>DylibSymbol\<close> branch the variable \<^verbatim>\<open>defined\<close> of the
  failed \<^verbatim>\<open>dyn_cast<Defined>\<close> is null, so \<^verbatim>\<open>return defined\<close> returns null there.
  \<^verbatim>\<open>isa<BitcodeFile>\<close> reads the kind through the file pointer of the existing
  definition.
\<close>

definition addDefined ::
  "Env \<Rightarrow> string \<Rightarrow> InputFile option \<Rightarrow> InputSection option \<Rightarrow> u64 \<Rightarrow> u64 \<Rightarrow> bool \<Rightarrow> bool \<Rightarrow> bool
     \<Rightarrow> bool \<Rightarrow> bool \<Rightarrow> bool \<Rightarrow> State \<Rightarrow> failure + (string option \<times> State)" where
  "addDefined env name file sec val sz isWeakDef isPrivateExtern isThumb
       isReferencedDynamically isNoDeadStrip isWeakDefCanBeHidden st =
     (case insert_sym name file st of (s, wasInserted, st1) \<Rightarrow>
        let replace = (\<lambda>overrides file' st'.
              Inr (Some name,
                   replaceSymbol name name file'
                     (Defined (mkDefined env sec val sz isWeakDef isPrivateExtern isThumb
                                 isReferencedDynamically isNoDeadStrip overrides
                                 isWeakDefCanBeHidden)) st'))
        in
        if \<not> bitcodeHasNoSection file sec then Inl AssertionFailed
        else if wasInserted then replace False file st1
        else
          (case body s of
             Defined d \<Rightarrow>
               if isWeakDef then
                 (if getRank file False isWeakDef < getRank (symFile s) False (weakDef d)
                  then replace False file st1
                  else if weakDef d then
                    Inr (Some name,
                         setBody name
                           (Defined (d\<lparr>privateExtern := privateExtern d \<and> isPrivateExtern,
                                       weakDefCanBeHidden :=
                                         weakDefCanBeHidden d \<and> isWeakDefCanBeHidden,
                                       referencedDynamically :=
                                         referencedDynamically d \<or> isReferencedDynamically,
                                       noDeadStrip := noDeadStrip d \<or> isNoDeadStrip\<rparr>)) st1)
                  else Inr (Some name, st1))
               else if weakDef d then replace False file st1
               else
                 (case file of
                    Some f \<Rightarrow>
                      if lazyArchiveMember f then
                        (case symFile s of
                           None \<Rightarrow> Inl NullDeref
                         | Some df \<Rightarrow>
                             if kind df \<noteq> BitcodeKind then
                               (if lazyArchiveMember df then
                                  (if priority f < priority df then Inr (Some name, st1)
                                   else replace False file st1)
                                else Inr (Some name, st1))
                             else replace False file st1)
                      else
                        replace False file
                          (st1\<lparr>dupSymDiags := dupSymDiags st1 @
                             [\<lparr>src1 = (definedSourceLocation env s, fileToString env (symFile s)),
                               src2 = ((case sec of None \<Rightarrow> []
                                         | Some i \<Rightarrow> getSourceLocation env i val),
                                       fileToString env file),
                               dupSym = name\<rparr>]\<rparr>)
                  | None \<Rightarrow>
                      replace False file
                        (st1\<lparr>dupSymDiags := dupSymDiags st1 @
                           [\<lparr>src1 = (definedSourceLocation env s, fileToString env (symFile s)),
                             src2 = ((case sec of None \<Rightarrow> []
                                       | Some i \<Rightarrow> getSourceLocation env i val),
                                     fileToString env file),
                             dupSym = name\<rparr>]\<rparr>))
           | DylibSymbol dyWeak dyRef dyTlv \<Rightarrow>
               (case file of
                  None \<Rightarrow> Inl NullDeref
                | Some f \<Rightarrow>
                    if lazyArchiveMember f then Inr (None, st1)
                    else replace (\<not> isWeakDef \<and> dyWeak) file (unreference s st1))
           | Undefined rs wasBitcode \<Rightarrow>
               replace False (if wasBitcode then symFile s else file) st1
           | CommonSymbol csz cal cpe \<Rightarrow>
               (case symFile s of
                  None \<Rightarrow> Inl NullDeref
                | Some cf \<Rightarrow>
                    if lazyArchiveMember cf then
                      (case file of
                         None \<Rightarrow> Inl NullDeref
                       | Some f \<Rightarrow>
                           if lazyArchiveMember f \<and> priority f < priority cf
                           then Inr (None, st1)
                           else replace False file st1)
                    else replace False file st1)
           | _ \<Rightarrow> replace False file st1))"

text \<open>
  \<^verbatim>\<open>SymbolTable::addSynthetic\<close>: \<^verbatim>\<open>addDefined\<close> with a null file, then a write
  of \<^verbatim>\<open>includeInSymtab\<close> through the returned pointer. (The assertion on the file of
  the section is about a field the model does not carry.)
\<close>

definition addSynthetic ::
  "Env \<Rightarrow> string \<Rightarrow> InputSection option \<Rightarrow> u64 \<Rightarrow> bool \<Rightarrow> bool \<Rightarrow> bool \<Rightarrow> State
     \<Rightarrow> failure + (string option \<times> State)" where
  "addSynthetic env name sec val isPrivateExtern inclInSymtab isReferencedDynamically st =
     (case addDefined env name None sec val 0 False isPrivateExtern False
             isReferencedDynamically False False st of
        Inl e \<Rightarrow> Inl e
      | Inr (None, st') \<Rightarrow> Inl NullDeref
      | Inr (Some p, st') \<Rightarrow>
          (case map_of (symMap st') p of
             Some s \<Rightarrow>
               (case body s of
                  Defined d \<Rightarrow>
                    Inr (Some p, setBody p (Defined (d\<lparr>includeInSymtab := inclInSymtab\<rparr>)) st')
                | _ \<Rightarrow> Inl NullDeref)
           | None \<Rightarrow> Inl NullDeref))"

section \<open>References, dylib symbols and lazy archive symbols\<close>

text \<open>
  Modelled from the spec: \<^verbatim>\<open>DylibSymbol::reference\<close> (Symbols.h, not among the
  sources) bumps the \<open>refState\<close> of the dylib symbol upward, to the strongest reference
  observed.
\<close>

fun reference :: "RefState \<Rightarrow> SymBody \<Rightarrow> SymBody" where
  "reference newState (DylibSymbol w r t) = DylibSymbol w (max r newState) t"
| "reference newState b = b"

text \<open>\<^verbatim>\<open>SymbolTable::addUndefined\<close>; the returned pointer is the slot of the name.\<close>

definition addUndefined :: "string \<Rightarrow> InputFile option \<Rightarrow> bool \<Rightarrow> State \<Rightarrow> string \<times> State" where
  "addUndefined name file isWeakRef st =
     (case insert_sym name file st of (s, wasInserted, st1) \<Rightarrow>
        let rs = (if isWeakRef then Weak else Strong) in
        if wasInserted then (name, replaceSymbol name name file (Undefined rs False) st1)
        else
          (case body s of
             DylibSymbol w r t \<Rightarrow> (name, setBody name (reference rs (body s)) st1)
           | Undefined r wasBitcode \<Rightarrow> (name, setBody name (Undefined (max r rs) wasBitcode) st1)
           | _ \<Rightarrow> (name, st1)))"

text \<open>
  \<^verbatim>\<open>SymbolTable::addDylib\<close>: the hash map's \<^verbatim>\<open>insert\<close> keeps the element already
  stored under the name and hands that one back; otherwise the fresh
  \<^verbatim>\<open>DylibSymbol\<close> is stored, unreferenced.
\<close>

definition addDylib :: "string \<Rightarrow> InputFile option \<Rightarrow> bool \<Rightarrow> bool \<Rightarrow> State \<Rightarrow> string \<times> State" where
  "addDylib name file isWeakDef isTlv st =
     (case map_of (symMap st) name of
        Some s \<Rightarrow> (name, st)
      | None \<Rightarrow>
          (name, st\<lparr>symMap := symMap st @
             [(name, \<lparr>symName = name, symFile = file, isUsedInRegularObj = False,
                       body = DylibSymbol isWeakDef Unreferenced isTlv\<rparr>)]\<rparr>))"

text \<open>\<^verbatim>\<open>file->fetch(sym)\<close>: the call is logged, then the hook runs.\<close>

definition fetch :: "Env \<Rightarrow> InputFile \<Rightarrow> ArchiveSymbol \<Rightarrow> State \<Rightarrow> failure + State" where
  "fetch env file cookie st =
     fetchArchiveMember env file cookie (st\<lparr>fetchLog := fetchLog st @ [(file, cookie)]\<rparr>)"

text \<open>\<^verbatim>\<open>SymbolTable::addLazyArchive\<close>\<close>

definition addLazyArchive ::
  "Env \<Rightarrow> string \<Rightarrow> InputFile \<Rightarrow> ArchiveSymbol \<Rightarrow> State \<Rightarrow> failure + (string \<times> State)" where
  "addLazyArchive env name file cookie st =
     (case insert_sym name (Some file) st of (s, wasInserted, st1) \<Rightarrow>
        if wasInserted
        then Inr (name, replaceSymbol name name (Some file) (LazyArchive cookie) st1)
        else
          (case body s of
             Undefined r wasBitcode \<Rightarrow> map_sum id (Pair name) (fetch env file cookie st1)
           | DylibSymbol w r t \<Rightarrow>
               if w then
                 (if r \<noteq> Unreferenced then map_sum id (Pair name) (fetch env file cookie st1)
                  else Inr (name, replaceSymbol name name (Some file) (LazyArchive cookie) st1))
               else Inr (name, st1)
           | _ \<Rightarrow> Inr (name, st1)))"

section \<open>Reporting\<close>

datatype Diagnostic = Warn string | Err string

definition nl :: string where
  "nl = [CHR 0x0A]"

text \<open>The body of the loop of \<^verbatim>\<open>reportPendingDuplicateSymbols\<close>.\<close>

definition duplicateMessage :: "Env \<Rightarrow> DuplicateSymbolDiag \<Rightarrow> Diagnostic list" where
  "duplicateMessage env duplicate =
     (if \<not> deadStripDuplicates env \<or> isLive env (dupSym duplicate) then
        [Warn (''duplicate symbol: '' @ symToString env (dupSym duplicate) @ nl @ ''>>> defined in ''
               @ (if fst (src1 duplicate) \<noteq> [] then fst (src1 duplicate) @ nl @ ''>>>            ''
                  else [])
               @ snd (src1 duplicate) @ nl @ ''>>> defined in ''
               @ (if fst (src2 duplicate) \<noteq> [] then fst (src2 duplicate) @ nl @ ''>>>            ''
                  else [])
               @ snd (src2 duplicate))]
      else [])"

text \<open>
  \<^verbatim>\<open>reportPendingDuplicateSymbols\<close>: the warnings emitted, and the state afterwards;
  the function has no statement that changes the pool.
\<close>

definition reportPendingDuplicateSymbols :: "Env \<Rightarrow> State \<Rightarrow> Diagnostic list \<times> State" where
  "reportPendingDuplicateSymbols env st =
     (concat (map (duplicateMessage env) (dupSymDiags st)), st)"

section \<open>Typo suggestion\<close>

text \<open>
  \<^verbatim>\<open>canSuggestExternCForCXX\<close>: the definition name demangles to a function name equal
  to the reference.
\<close>

definition canSuggestExternCForCXX :: "Env \<Rightarrow> string \<Rightarrow> string \<Rightarrow> bool" where
  "canSuggestExternCForCXX env ref def =
     (case getFunctionName env def of None \<Rightarrow> False | Some buf \<Rightarrow> ref = buf)"

text \<open>
  The map of the local defined symbols of the file of the reference: one
  \<^verbatim>\<open>try_emplace\<close> per non-null, non-external \<^verbatim>\<open>Defined\<close> of \<^verbatim>\<open>symbols\<close>. The
  list order stands for the iteration order of the map.
\<close>

fun tryEmplaceLocal :: "(string \<times> Symbol) list \<Rightarrow> Symbol option \<Rightarrow> (string \<times> Symbol) list" where
  "tryEmplaceLocal m None = m"
| "tryEmplaceLocal m (Some s) =
     (case body s of
        Defined d \<Rightarrow>
          if \<not> external d
          then (if map_of m (symName s) = None then m @ [(symName s, s)] else m)
          else m
      | _ \<Rightarrow> m)"

definition localDefinedMap :: "Env \<Rightarrow> Symbol \<Rightarrow> (string \<times> Symbol) list" where
  "localDefinedMap env sym0 =
     (case symFile sym0 of
        None \<Rightarrow> []
      | Some f \<Rightarrow> if kind f = ObjKind then foldl tryEmplaceLocal [] (fileSymbols env f) else [])"

text \<open>The lambda \<^verbatim>\<open>suggest\<close>.\<close>

definition suggest :: "(string \<times> Symbol) list \<Rightarrow> State \<Rightarrow> string \<Rightarrow> Symbol option" where
  "suggest m st newName =
     (case map_of m newName of
        Some s \<Rightarrow> Some s
      | None \<Rightarrow>
          (case find_sym st newName of
             Some s \<Rightarrow> if is_Undefined (body s) then None else Some s
           | None \<Rightarrow> None))"

text \<open>The characters \<^verbatim>\<open>'0'\<close> to \<^verbatim>\<open>'z'\<close> of the two inner loops.\<close>

definition typoChars :: "char list" where
  "typoChars = map char_of [48 ..< (123 :: nat)]"

text \<open>
  The names one round of the outer loop tries, in order: the insertions before
  \<open>name[i]\<close>; and, unless \<open>i\<close> is the length, the substitutions of \<open>name[i]\<close>, the
  transposition with \<open>name[i+1]\<close> and the deletion of \<open>name[i]\<close>.
\<close>

definition candidatesAt :: "string \<Rightarrow> nat \<Rightarrow> string list" where
  "candidatesAt name i =
     map (\<lambda>c. take i name @ [c] @ drop i name) typoChars @
     (if i = length name then []
      else
        map (\<lambda>c. name[i := c]) typoChars @
        (if i + 1 < length name then [name[i := name ! (i + 1), i + 1 := name ! i]] else []) @
        [take i name @ drop (i + 1) name])"

definition typoCandidates :: "string \<Rightarrow> string list" where
  "typoCandidates name = concat (map (candidatesAt name) [0 ..< length name + 1])"

text \<open>The first candidate that \<^verbatim>\<open>suggest\<close> accepts ends the loops.\<close>

fun firstSuggestion :: "(string \<Rightarrow> Symbol option) \<Rightarrow> string list \<Rightarrow> Symbol option" where
  "firstSuggestion f [] = None"
| "firstSuggestion f (n # ns) =
     (case f n of Some s \<Rightarrow> Some s | None \<Rightarrow> firstSuggestion f ns)"

text \<open>\<^verbatim>\<open>StringRef::equals_insensitive\<close>: equal up to the case of ASCII letters.\<close>

definition toLower :: "char \<Rightarrow> char" where
  "toLower c =
     (if (65 :: nat) \<le> of_char c \<and> of_char c \<le> (90 :: nat)
      then char_of (of_char c + (32 :: nat)) else c)"

definition equals_insensitive :: "string \<Rightarrow> string \<Rightarrow> bool" where
  "equals_insensitive a b = (map toLower a = map toLower b)"

definition externC :: string where
  "externC = ''extern '' @ [CHR 0x22] @ ''C'' @ [CHR 0x22]"

text \<open>
  \<^verbatim>\<open>getAlternativeSpelling\<close>: the suggested symbol and the two hints afterwards.
\<close>

definition getAlternativeSpelling ::
  "Env \<Rightarrow> State \<Rightarrow> Symbol \<Rightarrow> string \<Rightarrow> string \<Rightarrow> Symbol option \<times> string \<times> string" where
  "getAlternativeSpelling env st sym0 pre_hint post_hint =
     (let m = localDefinedMap env sym0; name = symName sym0 in
      case firstSuggestion (suggest m st) (typoCandidates name) of
        Some s \<Rightarrow> (Some s, pre_hint, post_hint)
      | None \<Rightarrow>
      (case List.find (\<lambda>it. equals_insensitive name (fst it)) m of
        Some it \<Rightarrow> (Some (snd it), pre_hint, post_hint)
      | None \<Rightarrow>
      (case List.find (\<lambda>it. \<not> is_Undefined (body (snd it))
                              \<and> equals_insensitive name (symName (snd it))) (symMap st) of
        Some it \<Rightarrow> (Some (snd it), pre_hint, post_hint)
      | None \<Rightarrow>
        if take 3 name = ''__Z'' then
          (case getFunctionName env name of
             None \<Rightarrow> (None, pre_hint, post_hint)
           | Some buf \<Rightarrow>
               (case suggest m st (''_'' @ buf) of
                  Some s \<Rightarrow> (Some s, '': '' @ externC @ '' '', post_hint)
                | None \<Rightarrow> (None, pre_hint, post_hint)))
        else
          (let name_without_underscore = (if take 1 name = ''_'' then drop 1 name else name) in
           case (case List.find (\<lambda>it. canSuggestExternCForCXX env name_without_underscore (fst it)) m of
                   Some it \<Rightarrow> Some (snd it)
                 | None \<Rightarrow>
                     map_option snd
                       (List.find (\<lambda>it. canSuggestExternCForCXX env name_without_underscore
                                            (symName (snd it))) (symMap st))) of
             Some s \<Rightarrow> (Some s, '' to declare '', '' as '' @ externC @ ''?'')
           | None \<Rightarrow> (None, pre_hint, post_hint)))))"

section \<open>Reporting undefined symbols\<close>

text \<open>A \<^verbatim>\<open>size_t\<close> in decimal, as \<^verbatim>\<open>Twine\<close> prints it.\<close>

function decimal :: "nat \<Rightarrow> string" where
  "decimal n =
     (if n < 10 then [char_of (48 + n)] else decimal (n div 10) @ [char_of (48 + n mod 10)])"
  by pat_completeness auto
termination
  by (relation "measure (\<lambda>n. n)") auto

text \<open>The two loops over the reference sites; both stop at three lines in all.\<close>

fun otherLoop :: "string list \<Rightarrow> nat \<Rightarrow> string \<Rightarrow> string \<times> nat" where
  "otherLoop [] i message = (message, i)"
| "otherLoop (loc # locs) i message =
     (if i \<ge> 3 then (message, i)
      else otherLoop locs (i + 1) (message @ nl @ ''>>> referenced by '' @ loc))"

fun codeLoop :: "Env \<Rightarrow> (InputSection \<times> u64) list \<Rightarrow> nat \<Rightarrow> string \<Rightarrow> string \<times> nat" where
  "codeLoop env [] i message = (message, i)"
| "codeLoop env (loc # locs) i message =
     (if i \<ge> 3 then (message, i)
      else codeLoop env locs (i + 1)
             (message @ nl @ ''>>> referenced by ''
              @ (if getSourceLocation env (fst loc) (snd loc) \<noteq> []
                 then getSourceLocation env (fst loc) (snd loc) @ nl @ ''>>>               ''
                 else [])
              @ getLocation env (fst loc) (snd loc)))"

text \<open>
  \<^verbatim>\<open>reportUndefinedSymbol\<close>: the diagnostic emitted; with a treatment other than
  \<^verbatim>\<open>error\<close> or \<^verbatim>\<open>warning\<close> the final assertion fails.
\<close>

definition reportUndefinedSymbol ::
  "Env \<Rightarrow> State \<Rightarrow> Symbol \<Rightarrow> UndefinedDiag \<Rightarrow> bool \<Rightarrow> failure + Diagnostic" where
  "reportUndefinedSymbol env st sym0 locations correctSpelling =
     (let message0 = ''undefined symbol''
            @ (if archMultiple env then '' for arch '' @ archName env else [])
            @ '': '' @ symToString env (symName sym0);
          (message1, i1) = otherLoop (otherReferences locations) 0 message0;
          (message2, i) = codeLoop env (codeReferences locations) i1 message1;
          totalReferences = length (otherReferences locations) + length (codeReferences locations);
          message3 =
            (if totalReferences > i
             then message2 @ nl @ ''>>> referenced '' @ decimal (totalReferences - i)
                  @ '' more times''
             else message2);
          message4 =
            (if correctSpelling then
               (case getAlternativeSpelling env st sym0 '': '' [] of
                  (Some corrected, pre_hint, post_hint) \<Rightarrow>
                    message3 @ nl @ ''>>> did you mean'' @ pre_hint
                    @ symToString env (symName corrected) @ post_hint
                    @ (case symFile corrected of
                         None \<Rightarrow> []
                       | Some f \<Rightarrow> nl @ ''>>> defined in: '' @ fileToString env (Some f))
                | (None, pre_hint, post_hint) \<Rightarrow> message3)
             else message3)
      in if undefinedSymbolTreatment env = error then Inr (Err message4)
         else if undefinedSymbolTreatment env = warning then Inr (Warn message4)
         else Inl AssertionFailed)"

text \<open>The loop of \<^verbatim>\<open>reportPendingUndefinedSymbols\<close> over the enumerated pool.\<close>

fun reportUndefs ::
  "Env \<Rightarrow> State \<Rightarrow> nat \<Rightarrow> (Symbol \<times> UndefinedDiag) list \<Rightarrow> failure + Diagnostic list" where
  "reportUndefs env st i [] = Inr []"
| "reportUndefs env st i (undef # rest) =
     (case reportUndefinedSymbol env st (fst undef) (snd undef) (i < 2) of
        Inl e \<Rightarrow> Inl e
      | Inr d \<Rightarrow>
          (case reportUndefs env st (i + 1) rest of
             Inl e \<Rightarrow> Inl e
           | Inr ds \<Rightarrow> Inr (d # ds)))"

text \<open>
  \<^verbatim>\<open>reportPendingUndefinedSymbols\<close>: the diagnostics emitted, and the state with the
  pool cleared.
\<close>

definition reportPendingUndefinedSymbols ::
  "Env \<Rightarrow> State \<Rightarrow> failure + (Diagnostic list \<times> State)" where
  "reportPendingUndefinedSymbols env st =
     (case reportUndefs env st 0 (undefs st) of
        Inl e \<Rightarrow> Inl e
      | Inr out \<Rightarrow> Inr (out, st\<lparr>undefs := []\<rparr>))"

section \<open>Running calls in sequence, and example inputs\<close>

text \<open>A second call runs on the state the first one left, unless the first one failed.\<close>

definition andThen ::
  "failure + ('a \<times> State) \<Rightarrow> (State \<Rightarrow> failure + ('b \<times> State)) \<Rightarrow> failure + ('b \<times> State)" where
  "andThen r f = (case r of Inl e \<Rightarrow> Inl e | Inr (p, st) \<Rightarrow> f st)"

text \<open>What a call left behind: its state, and the slot of a name in it.\<close>

definition stateAfter :: "failure + ('a \<times> State) \<Rightarrow> State option" where
  "stateAfter r = (case r of Inl e \<Rightarrow> None | Inr (p, st) \<Rightarrow> Some st)"

definition slotAfter :: "string \<Rightarrow> failure + ('a \<times> State) \<Rightarrow> Symbol option" where
  "slotAfter name r = (case r of Inl e \<Rightarrow> None | Inr (p, st) \<Rightarrow> find_sym st name)"

text \<open>All \<^verbatim>\<open>addUndefined\<close> calls of a list, on one name, in the order of the list.\<close>

fun addUndefinedAll :: "string \<Rightarrow> (InputFile option \<times> bool) list \<Rightarrow> State \<Rightarrow> State" where
  "addUndefinedAll name [] st = st"
| "addUndefinedAll name (c # cs) st =
     addUndefinedAll name cs (snd (addUndefined name (fst c) (snd c) st))"

text \<open>The state a call asks for, and the \<open>refState\<close> a slot carries, if it carries one.\<close>

definition requested :: "InputFile option \<times> bool \<Rightarrow> RefState" where
  "requested c = (if snd c then Weak else Strong)"

fun refStateOf :: "SymBody \<Rightarrow> RefState option" where
  "refStateOf (Undefined r wasBitcode) = Some r"
| "refStateOf (DylibSymbol w r t) = Some r"
| "refStateOf b = None"

definition emptyState :: State where
  "emptyState = \<lparr>symMap = [], dupSymDiags = [], undefs = [], fetchLog = [],
                  numReferencedSymbols = (\<lambda>f. 0)\<rparr>"

definition objA :: InputFile where
  "objA = \<lparr>fileId = ''a.o'', kind = ObjKind, priority = 1, lazyArchiveMember = False\<rparr>"

definition objB :: InputFile where
  "objB = \<lparr>fileId = ''b.o'', kind = ObjKind, priority = 2, lazyArchiveMember = False\<rparr>"

definition dylibA :: InputFile where
  "dylibA = \<lparr>fileId = ''libA.dylib'', kind = DylibKind, priority = 3, lazyArchiveMember = False\<rparr>"

definition memberM :: InputFile where
  "memberM = \<lparr>fileId = ''libM.a(m.o)'', kind = ObjKind, priority = 4, lazyArchiveMember = True\<rparr>"

definition memberN :: InputFile where
  "memberN = \<lparr>fileId = ''libN.a(n.o)'', kind = ObjKind, priority = 5, lazyArchiveMember = True\<rparr>"

definition bitcodeC :: InputFile where
  "bitcodeC = \<lparr>fileId = ''c.bc'', kind = BitcodeKind, priority = 6, lazyArchiveMember = False\<rparr>"

definition archiveL :: InputFile where
  "archiveL = \<lparr>fileId = ''libL.a'', kind = ArchiveKind, priority = 7, lazyArchiveMember = False\<rparr>"

text \<open>
  An environment: a two-level executable, undefined symbols are errors, the demangler
  knows one mangled name, and a fetch extracts nothing.
\<close>

definition baseEnv :: Env where
  "baseEnv = \<lparr>namespaceKind = twolevel, outputType = MH_EXECUTE, deadStripDuplicates = False,
     undefinedSymbolTreatment = error, archMultiple = False, archName = ''arm64'',
     fileToString = (\<lambda>f. case f of None \<Rightarrow> ''<internal>'' | Some x \<Rightarrow> fileId x),
     symToString = (\<lambda>n. n),
     definedSourceLocation = (\<lambda>s. []), getSourceLocation = (\<lambda>i v. []),
     getLocation = (\<lambda>i v. []), isLive = (\<lambda>n. True),
     getFunctionName = (\<lambda>n. if n = ''__Z3foov'' then Some ''foo'' else None),
     fileSymbols = (\<lambda>f. []),
     fetchArchiveMember = (\<lambda>f c st. Inr st)\<rparr>"

text \<open>
  The same, where fetching a member of an archive feeds the definition of \<open>_h\<close> in the
  member back into the table.
\<close>

definition fetchingEnv :: Env where
  "fetchingEnv = baseEnv\<lparr>fetchArchiveMember :=
     (\<lambda>f c st. map_sum id snd
        (addDefined baseEnv ''_h'' (Some (memberM\<lparr>lazyArchiveMember := False\<rparr>)) (Some 0) 0 4
           False False False False False False st))\<rparr>"

text \<open>The states the examples run on, and the symbols in them.\<close>

definition tableOf :: "(string \<times> Symbol) list \<Rightarrow> State" where
  "tableOf m = emptyState\<lparr>symMap := m\<rparr>"

definition definedSym :: "string \<Rightarrow> InputFile option \<Rightarrow> bool \<Rightarrow> Symbol" where
  "definedSym n f wk =
     \<lparr>symName = n, symFile = f, isUsedInRegularObj = nullOrObj f,
      body = Defined (mkDefined baseEnv None 0 0 wk False False False False False False)\<rparr>"

definition undefinedSym :: "string \<Rightarrow> InputFile \<Rightarrow> Symbol" where
  "undefinedSym n f =
     \<lparr>symName = n, symFile = Some f, isUsedInRegularObj = (kind f = ObjKind),
      body = Undefined Strong False\<rparr>"

definition commonSym :: "string \<Rightarrow> InputFile \<Rightarrow> Symbol" where
  "commonSym n f =
     \<lparr>symName = n, symFile = Some f, isUsedInRegularObj = (kind f = ObjKind),
      body = CommonSymbol 8 3 False\<rparr>"

definition dylibSym :: "string \<Rightarrow> InputFile \<Rightarrow> bool \<Rightarrow> Symbol" where
  "dylibSym n f wk =
     \<lparr>symName = n, symFile = Some f, isUsedInRegularObj = False,
      body = DylibSymbol wk Unreferenced False\<rparr>"

definition lazySym :: "string \<Rightarrow> InputFile \<Rightarrow> ArchiveSymbol \<Rightarrow> Symbol" where
  "lazySym n f cookie =
     \<lparr>symName = n, symFile = Some f, isUsedInRegularObj = False, body = LazyArchive cookie\<rparr>"

text \<open>
  Scenario S1: \<open>_f\<close> is a weak definition of a dylib, then a strong definition of an
  object file.
\<close>

definition dylibTable :: State where
  "dylibTable = snd (addDylib ''_f'' (Some dylibA) True False emptyState)"

definition scenarioS1 :: "failure + (string option \<times> State)" where
  "scenarioS1 =
     addDefined baseEnv ''_f'' (Some objB) (Some 0) 16 4 False False False False False False
       dylibTable"

text \<open>Scenario S2: two strong definitions of \<open>_g\<close>, of \<open>a.o\<close> and then of \<open>b.o\<close>.\<close>

definition scenarioS2 :: "failure + (string option \<times> State)" where
  "scenarioS2 =
     andThen
       (addDefined baseEnv ''_g'' (Some objA) (Some 0) 0 4 False False False False False False
          emptyState)
       (addDefined baseEnv ''_g'' (Some objB) (Some 1) 0 4 False False False False False False)"

text \<open>
  Scenario S4: \<open>_h\<close> is a lazy archive symbol, then a strong reference of an object
  file.
\<close>

definition scenarioS4 :: "failure + (string \<times> State)" where
  "scenarioS4 =
     andThen (addLazyArchive fetchingEnv ''_h'' archiveL 7 emptyState)
       (\<lambda>st. Inr (addUndefined ''_h'' (Some objB) False st))"

text \<open>
  A table with two undefined references, \<open>_foo\<close> of a C file and the mangled
  \<open>__Z3foov\<close> of a C++ file.
\<close>

definition typoTable :: State where
  "typoTable =
     snd (addUndefined ''__Z3foov'' (Some objB) False
            (snd (addUndefined ''_foo'' (Some objA) False emptyState)))"

text \<open>A state with one pooled duplicate and one pooled undefined symbol.\<close>

definition pooledState :: State where
  "pooledState =
     emptyState\<lparr>symMap := [(''_g'', definedSym ''_g'' (Some objB) False),
                             (''_u'', undefinedSym ''_u'' objA)],
                 dupSymDiags := [\<lparr>src1 = ([], ''a.o''), src2 = ([], ''b.o''), dupSym = ''_g''\<rparr>],
                 undefs := [(undefinedSym ''_u'' objA,
                             \<lparr>codeReferences = [], otherReferences = [''a.o'']\<rparr>)]\<rparr>"

section \<open>The rank table of the specification\<close>

text \<open>
  The class of a candidate as the table of the specification gives it (section 4.3.1),
  to compare with \<^verbatim>\<open>getRank\<close>; and the priority of a file, 0 for the null file.
\<close>

fun specRankClass :: "InputFile option \<Rightarrow> bool \<Rightarrow> bool \<Rightarrow> nat" where
  "specRankClass None isCommon isWeak = 7"
| "specRankClass (Some f) isCommon isWeak =
     (if isCommon then (if lazyArchiveMember f then 6 else 5)
      else if kind f = DylibKind \<or> lazyArchiveMember f then (if isWeak then 4 else 3)
      else if isWeak then 2 else 1)"

fun priorityOf :: "InputFile option \<Rightarrow> nat" where
  "priorityOf None = 0"
| "priorityOf (Some f) = priority f"

section \<open>Facts about the table\<close>

lemma insert_sym_hit:
  "map_of (symMap st) name = Some s0 \<Longrightarrow>
   insert_sym name file st =
     (s0\<lparr>isUsedInRegularObj := isUsedInRegularObj s0 \<or> nullOrObj file\<rparr>, False,
      st\<lparr>symMap := AList.update name
             (s0\<lparr>isUsedInRegularObj := isUsedInRegularObj s0 \<or> nullOrObj file\<rparr>) (symMap st)\<rparr>)"
  by (simp add: insert_sym_def Let_def)

lemma insert_sym_miss:
  "map_of (symMap st) name = None \<Longrightarrow>
   insert_sym name file st =
     (\<lparr>symName = [], symFile = None, isUsedInRegularObj = nullOrObj file, body = Blank\<rparr>, True,
      st\<lparr>symMap := symMap st @
        [(name, \<lparr>symName = [], symFile = None, isUsedInRegularObj = nullOrObj file, body = Blank\<rparr>)]\<rparr>)"
  by (simp add: insert_sym_def Let_def)

lemmas table_defs = find_sym_def replaceSymbol_def setBody_def unreference_def

lemmas table_simps = update_conv' map_of_map_entry map_add_def

section \<open>The rank\<close>

lemma getRank_spec:
  "getRank file isCommon isWeak
     = push_bit 24 (of_nat (specRankClass file isCommon isWeak)) + of_nat (priorityOf file)"
  by (cases "file") simp_all

lemma specRankClass_bound: "specRankClass file isCommon isWeak < 8"
  by (cases "file") simp_all

lemma unat_rank:
  "p < 2 ^ 24 \<Longrightarrow> k < 8 \<Longrightarrow> unat (push_bit 24 (of_nat k) + (of_nat p :: u64)) = k * 2 ^ 24 + p"
  by (simp add: push_bit_eq_mult unat_word_ariths unat_of_nat)

lemma unat_getRank:
  "priorityOf file < 2 ^ 24 \<Longrightarrow>
   unat (getRank file isCommon isWeak)
     = specRankClass file isCommon isWeak * 2 ^ 24 + priorityOf file"
  unfolding getRank_spec by (rule unat_rank) (simp_all add: specRankClass_bound)

lemma lex_less:
  fixes a b p q :: nat
  assumes "p < m" and "q < m"
  shows "(a * m + p < b * m + q) = (a < b \<or> (a = b \<and> p < q))"
proof (cases "a < b")
  case True
  then have "Suc a \<le> b" by simp
  then have "Suc a * m \<le> b * m" by (rule mult_le_mono1)
  with assms True show ?thesis by simp
next
  case False
  show ?thesis
  proof (cases "a = b")
    case True
    then show ?thesis by simp
  next
    case ne: False
    with False have "Suc b \<le> a" by simp
    then have "Suc b * m \<le> a * m" by (rule mult_le_mono1)
    with assms False ne show ?thesis by simp
  qed
qed

lemma getRank_order:
  assumes "priorityOf a < 2 ^ 24" and "priorityOf b < 2 ^ 24"
  shows "(getRank a ca wa < getRank b cb wb)
           = (specRankClass a ca wa < specRankClass b cb wb
              \<or> (specRankClass a ca wa = specRankClass b cb wb \<and> priorityOf a < priorityOf b))"
  using assms by (simp add: word_less_nat_alt unat_getRank lex_less)

lemma addDefined_weak_on_defined:
  assumes "find_sym st name = Some s" and "body s = Defined d"
    and "bitcodeHasNoSection file sec"
  shows "\<exists>st'. addDefined env name file sec val sz True isPrivateExtern isThumb
                 isReferencedDynamically isNoDeadStrip isWeakDefCanBeHidden st
                 = Inr (Some name, st')
           \<and> dupSymDiags st' = dupSymDiags st
           \<and> find_sym st' name = Some
               (if getRank file False True < getRank (symFile s) False (weakDef d) then
                  \<lparr>symName = name, symFile = file,
                   isUsedInRegularObj = (isUsedInRegularObj s \<or> nullOrObj file),
                   body = Defined (mkDefined env sec val sz True isPrivateExtern isThumb
                            isReferencedDynamically isNoDeadStrip False isWeakDefCanBeHidden)\<rparr>
                else if weakDef d then
                  s\<lparr>isUsedInRegularObj := isUsedInRegularObj s \<or> nullOrObj file,
                    body := Defined (d\<lparr>privateExtern := privateExtern d \<and> isPrivateExtern,
                              weakDefCanBeHidden := weakDefCanBeHidden d \<and> isWeakDefCanBeHidden,
                              referencedDynamically :=
                                referencedDynamically d \<or> isReferencedDynamically,
                              noDeadStrip := noDeadStrip d \<or> isNoDeadStrip\<rparr>)\<rparr>
                else s\<lparr>isUsedInRegularObj := isUsedInRegularObj s \<or> nullOrObj file\<rparr>)"
  using assms
  by (auto simp: addDefined_def insert_sym_hit Let_def table_defs table_simps)

text \<open>
  Claim C1, as amended. \<^verbatim>\<open>getRank\<close> returns exactly the listed values
  (\<open>push_bit 24 k\<close> is \<^verbatim>\<open>k << 24\<close>, and the sum is taken in the 64-bit return type).
  When both priorities are below \<open>2 ^ 24\<close>, one rank is below another exactly when its
  class in the table is lower, or the classes are equal and its priority is lower. The
  rank decides the resolution of a weak incoming definition that meets an existing
  \<^verbatim>\<open>Defined\<close>: the incoming definition replaces the existing one exactly when its
  rank is lower; otherwise the existing definition stays (with the flags merged when it
  is weak too). Nothing is stated for a non-weak incoming definition, which
  \<^verbatim>\<open>addDefined\<close> resolves on a path that does not call \<^verbatim>\<open>getRank\<close>.
\<close>

theorem getRank_table_and_use:
  "getRank None isCommon isWeak = push_bit 24 7
   \<and> (isCommon \<and> lazyArchiveMember f \<longrightarrow>
        getRank (Some f) isCommon isWeak = push_bit 24 6 + of_nat (priority f))
   \<and> (isCommon \<and> \<not> lazyArchiveMember f \<longrightarrow>
        getRank (Some f) isCommon isWeak = push_bit 24 5 + of_nat (priority f))
   \<and> (\<not> isCommon \<and> (kind f = DylibKind \<or> lazyArchiveMember f) \<and> isWeak \<longrightarrow>
        getRank (Some f) isCommon isWeak = push_bit 24 4 + of_nat (priority f))
   \<and> (\<not> isCommon \<and> (kind f = DylibKind \<or> lazyArchiveMember f) \<and> \<not> isWeak \<longrightarrow>
        getRank (Some f) isCommon isWeak = push_bit 24 3 + of_nat (priority f))
   \<and> (\<not> isCommon \<and> kind f \<noteq> DylibKind \<and> \<not> lazyArchiveMember f \<and> isWeak \<longrightarrow>
        getRank (Some f) isCommon isWeak = push_bit 24 2 + of_nat (priority f))
   \<and> (\<not> isCommon \<and> kind f \<noteq> DylibKind \<and> \<not> lazyArchiveMember f \<and> \<not> isWeak \<longrightarrow>
        getRank (Some f) isCommon isWeak = push_bit 24 1 + of_nat (priority f))
   \<and> (priorityOf a < 2 ^ 24 \<and> priorityOf b < 2 ^ 24 \<longrightarrow>
        (getRank a ca wa < getRank b cb wb)
          = (specRankClass a ca wa < specRankClass b cb wb
             \<or> (specRankClass a ca wa = specRankClass b cb wb \<and> priorityOf a < priorityOf b)))
   \<and> (find_sym st name = Some s \<and> body s = Defined d \<and> bitcodeHasNoSection incoming sec \<longrightarrow>
        (\<exists>st'. addDefined env name incoming sec val sz True isPrivateExtern isThumb
                 isReferencedDynamically isNoDeadStrip isWeakDefCanBeHidden st
                 = Inr (Some name, st')
           \<and> find_sym st' name = Some
               (if getRank incoming False True < getRank (symFile s) False (weakDef d) then
                  \<lparr>symName = name, symFile = incoming,
                   isUsedInRegularObj = (isUsedInRegularObj s \<or> nullOrObj incoming),
                   body = Defined (mkDefined env sec val sz True isPrivateExtern isThumb
                            isReferencedDynamically isNoDeadStrip False isWeakDefCanBeHidden)\<rparr>
                else if weakDef d then
                  s\<lparr>isUsedInRegularObj := isUsedInRegularObj s \<or> nullOrObj incoming,
                    body := Defined (d\<lparr>privateExtern := privateExtern d \<and> isPrivateExtern,
                              weakDefCanBeHidden := weakDefCanBeHidden d \<and> isWeakDefCanBeHidden,
                              referencedDynamically :=
                                referencedDynamically d \<or> isReferencedDynamically,
                              noDeadStrip := noDeadStrip d \<or> isNoDeadStrip\<rparr>)\<rparr>
                else s\<lparr>isUsedInRegularObj := isUsedInRegularObj s \<or> nullOrObj incoming\<rparr>)))"
proof -
  have order: "priorityOf a < 2 ^ 24 \<and> priorityOf b < 2 ^ 24 \<longrightarrow>
        (getRank a ca wa < getRank b cb wb)
          = (specRankClass a ca wa < specRankClass b cb wb
             \<or> (specRankClass a ca wa = specRankClass b cb wb \<and> priorityOf a < priorityOf b))"
    using getRank_order by blast
  have use: "find_sym st name = Some s \<and> body s = Defined d \<and> bitcodeHasNoSection incoming sec \<longrightarrow>
        (\<exists>st'. addDefined env name incoming sec val sz True isPrivateExtern isThumb
                 isReferencedDynamically isNoDeadStrip isWeakDefCanBeHidden st
                 = Inr (Some name, st')
           \<and> find_sym st' name = Some
               (if getRank incoming False True < getRank (symFile s) False (weakDef d) then
                  \<lparr>symName = name, symFile = incoming,
                   isUsedInRegularObj = (isUsedInRegularObj s \<or> nullOrObj incoming),
                   body = Defined (mkDefined env sec val sz True isPrivateExtern isThumb
                            isReferencedDynamically isNoDeadStrip False isWeakDefCanBeHidden)\<rparr>
                else if weakDef d then
                  s\<lparr>isUsedInRegularObj := isUsedInRegularObj s \<or> nullOrObj incoming,
                    body := Defined (d\<lparr>privateExtern := privateExtern d \<and> isPrivateExtern,
                              weakDefCanBeHidden := weakDefCanBeHidden d \<and> isWeakDefCanBeHidden,
                              referencedDynamically :=
                                referencedDynamically d \<or> isReferencedDynamically,
                              noDeadStrip := noDeadStrip d \<or> isNoDeadStrip\<rparr>)\<rparr>
                else s\<lparr>isUsedInRegularObj := isUsedInRegularObj s \<or> nullOrObj incoming\<rparr>))"
    using addDefined_weak_on_defined [of st name s d incoming sec env val sz isPrivateExtern
        isThumb isReferencedDynamically isNoDeadStrip isWeakDefCanBeHidden]
    by blast
  show ?thesis
    using order use by simp
qed

theorem getRank_table_and_use_witness:
  "getRank (Some objA) False True < getRank (Some objB) False True
   \<and> slotAfter ''_w''
       (addDefined baseEnv ''_w'' (Some objA) None 0 0 True False False False False False
          (tableOf [(''_w'', definedSym ''_w'' (Some objB) True)]))
     = Some (definedSym ''_w'' (Some objA) True)"
  using getRank_table_and_use [where a = "Some objA" and b = "Some objB" and ca = False
      and wa = True and cb = False and wb = True
      and st = "tableOf [(''_w'', definedSym ''_w'' (Some objB) True)]" and name = "''_w''"
      and incoming = "Some objA" and sec = None and s = "definedSym ''_w'' (Some objB) True"
      and env = baseEnv
      and d = "mkDefined baseEnv None 0 0 True False False False False False False"
      and val = 0 and sz = 0 and isPrivateExtern = False and isThumb = False
      and isReferencedDynamically = False and isNoDeadStrip = False
      and isWeakDefCanBeHidden = False]
  by (auto simp: find_sym_def tableOf_def definedSym_def slotAfter_def objA_def objB_def
        mkDefined_def)

theorem higher_rank_strong_replaces_weak:
  "getRank (Some objA) False True < getRank (Some memberM) False False
   \<and> slotAfter ''_w''
       (addDefined baseEnv ''_w'' (Some memberM) None 0 0 False False False False False False
          (tableOf [(''_w'', definedSym ''_w'' (Some objA) True)]))
     = Some (definedSym ''_w'' (Some memberM) False)"
  by (simp add: addDefined_def insert_sym_def Let_def table_defs mkDefined_def emptyState_def
        tableOf_def definedSym_def objA_def memberM_def baseEnv_def slotAfter_def)


section \<open>Definitions that meet a definition\<close>

text \<open>
  Claim C2, as amended. Two non-weak \<^verbatim>\<open>addDefined\<close> calls on a name the table does
  not hold, from non-null files that are not lazy archive members, append exactly one
  duplicate record, with the location and file of the first call and then of the second;
  the second call does not keep the existing definition: after recording the duplicate it
  falls through to \<^verbatim>\<open>replaceSymbol\<close>, so the slot holds the definition of the call
  that arrived second, whatever the priorities.
\<close>

theorem addDefined_twice_strong:
  assumes "find_sym st name = None"
    and "\<not> lazyArchiveMember f" and "\<not> lazyArchiveMember g"
    and "bitcodeHasNoSection (Some f) secF" and "bitcodeHasNoSection (Some g) secG"
  shows "\<exists>st1 st2.
           addDefined env name (Some f) secF valF szF False peF thF rdF ndsF wchF st
             = Inr (Some name, st1)
         \<and> addDefined env name (Some g) secG valG szG False peG thG rdG ndsG wchG st1
             = Inr (Some name, st2)
         \<and> dupSymDiags st1 = dupSymDiags st
         \<and> dupSymDiags st2 = dupSymDiags st @
             [\<lparr>src1 = (definedSourceLocation env
                         \<lparr>symName = name, symFile = Some f,
                          isUsedInRegularObj = (kind f = ObjKind \<or> kind g = ObjKind),
                          body = Defined (mkDefined env secF valF szF False peF thF rdF ndsF
                                   False wchF)\<rparr>,
                       fileToString env (Some f)),
               src2 = ((case secG of None \<Rightarrow> [] | Some i \<Rightarrow> getSourceLocation env i valG),
                       fileToString env (Some g)),
               dupSym = name\<rparr>]
         \<and> find_sym st2 name = Some
             \<lparr>symName = name, symFile = Some g,
              isUsedInRegularObj = (kind f = ObjKind \<or> kind g = ObjKind),
              body = Defined (mkDefined env secG valG szG False peG thG rdG ndsG False wchG)\<rparr>"
  using assms
  apply (simp add: addDefined_def insert_sym_miss insert_sym_hit Let_def table_defs table_simps)
  apply (simp add: mkDefined_def)
  done

theorem addDefined_twice_strong_witness:
  "slotAfter ''_g'' scenarioS2
     = Some \<lparr>symName = ''_g'', symFile = Some objB, isUsedInRegularObj = True,
             body = Defined (mkDefined baseEnv (Some 1) 0 4 False False False False False False
                      False)\<rparr>
   \<and> map_option dupSymDiags (stateAfter scenarioS2)
     = Some [\<lparr>src1 = ([], ''a.o''), src2 = ([], ''b.o''), dupSym = ''_g''\<rparr>]"
  using addDefined_twice_strong [where st = emptyState and name = "''_g''" and f = objA
      and g = objB and secF = "Some 0" and secG = "Some 1" and env = baseEnv
      and valF = 0 and szF = 4 and peF = False and thF = False and rdF = False
      and ndsF = False and wchF = False
      and valG = 0 and szG = 4 and peG = False and thG = False and rdG = False
      and ndsG = False and wchG = False]
  by (auto simp: scenarioS2_def find_sym_def emptyState_def objA_def objB_def baseEnv_def
        slotAfter_def stateAfter_def andThen_def)

theorem duplicate_keeps_second_arrival:
  "map_option symFile (slotAfter ''_g'' scenarioS2) = Some (Some objB)
   \<and> priority objA < priority objB
   \<and> map_option symFile (slotAfter ''_g'' scenarioS2) \<noteq> Some (Some objA)"
  by (simp add: scenarioS2_def addDefined_def insert_sym_def Let_def table_defs emptyState_def
        objA_def objB_def baseEnv_def slotAfter_def andThen_def)

text \<open>
  Claim C3, as amended. A non-weak incoming definition from a lazy archive member meets
  an existing strong \<^verbatim>\<open>Defined\<close>. When the existing definition has a file, it stays
  (the slot changes in its sticky flag only) if that file is not a bitcode file and
  either is not a lazy archive member, or is one and the incoming file has the lower
  priority. Otherwise the incoming definition replaces it: always when the existing file
  is a bitcode file, and between two lazy archive members when the priority of the
  incoming file is not lower. No duplicate is recorded. When the existing definition has
  no file (a synthetic symbol), \<^verbatim>\<open>isa<BitcodeFile>\<close> reads through the null pointer.
\<close>

theorem addDefined_strong_vs_lazy_member:
  assumes "find_sym st name = Some s" and "body s = Defined d" and "\<not> weakDef d"
    and "lazyArchiveMember f" and "bitcodeHasNoSection (Some f) sec"
  shows "case symFile s of
           None \<Rightarrow>
             addDefined env name (Some f) sec val sz False isPrivateExtern isThumb
               isReferencedDynamically isNoDeadStrip isWeakDefCanBeHidden st = Inl NullDeref
         | Some g \<Rightarrow>
             (\<exists>st'. addDefined env name (Some f) sec val sz False isPrivateExtern isThumb
                      isReferencedDynamically isNoDeadStrip isWeakDefCanBeHidden st
                      = Inr (Some name, st')
                \<and> dupSymDiags st' = dupSymDiags st
                \<and> find_sym st' name = Some
                    (if kind g \<noteq> BitcodeKind
                        \<and> (lazyArchiveMember g \<longrightarrow> priority f < priority g)
                     then s\<lparr>isUsedInRegularObj := isUsedInRegularObj s \<or> kind f = ObjKind\<rparr>
                     else
                       \<lparr>symName = name, symFile = Some f,
                        isUsedInRegularObj = (isUsedInRegularObj s \<or> kind f = ObjKind),
                        body = Defined (mkDefined env sec val sz False isPrivateExtern isThumb
                                 isReferencedDynamically isNoDeadStrip False
                                 isWeakDefCanBeHidden)\<rparr>))"
  using assms
  by (auto simp: addDefined_def insert_sym_hit Let_def table_defs table_simps
           split: option.splits)

theorem addDefined_strong_vs_lazy_member_witness:
  "slotAfter ''_k''
     (addDefined baseEnv ''_k'' (Some memberM) None 0 0 False False False False False False
        (tableOf [(''_k'', definedSym ''_k'' (Some objA) False)]))
   = Some (definedSym ''_k'' (Some objA) False)"
  using addDefined_strong_vs_lazy_member [where st = "tableOf [(''_k'', definedSym ''_k'' (Some objA) False)]"
      and name = "''_k''" and s = "definedSym ''_k'' (Some objA) False"
      and d = "mkDefined baseEnv None 0 0 False False False False False False False"
      and f = memberM and sec = None and env = baseEnv and val = 0 and sz = 0
      and isPrivateExtern = False and isThumb = False and isReferencedDynamically = False
      and isNoDeadStrip = False and isWeakDefCanBeHidden = False]
  by (auto simp: find_sym_def tableOf_def definedSym_def slotAfter_def objA_def memberM_def
        mkDefined_def)

theorem bitcode_loses_and_larger_priority_wins:
  "slotAfter ''_k''
     (addDefined baseEnv ''_k'' (Some memberM) None 0 0 False False False False False False
        (tableOf [(''_k'', definedSym ''_k'' (Some bitcodeC) False)]))
   = Some (definedSym ''_k'' (Some memberM) False)
   \<and> priority memberM < priority memberN
   \<and> slotAfter ''_k''
       (addDefined baseEnv ''_k'' (Some memberM) None 0 0 False False False False False False
          (tableOf [(''_k'', definedSym ''_k'' (Some memberN) False)]))
     = Some (definedSym ''_k'' (Some memberN) False)"
  by (simp add: addDefined_def insert_sym_def Let_def table_defs mkDefined_def emptyState_def
        tableOf_def definedSym_def bitcodeC_def memberM_def memberN_def baseEnv_def
        slotAfter_def)

text \<open>
  Claim C5, as amended. On a slot that holds a \<^verbatim>\<open>DylibSymbol\<close>, an incoming
  definition from a non-null file that is not a lazy archive member wins: the slot
  becomes the new \<^verbatim>\<open>Defined\<close>, whose \<open>overridesWeakDef\<close> is true exactly when the
  incoming definition is non-weak and the dylib symbol is weak, the reference count of
  the dylib is dropped (by \<^verbatim>\<open>unreference\<close> on the dylib symbol), and no duplicate is
  recorded. From a lazy archive member the dylib symbol takes priority: the slot keeps it
  and the call returns null.
\<close>

theorem addDefined_over_dylib:
  assumes "find_sym st name = Some s" and "body s = DylibSymbol w r t"
    and "bitcodeHasNoSection (Some f) sec"
  shows "if lazyArchiveMember f then
           (\<exists>st'. addDefined env name (Some f) sec val sz isWeakDef isPrivateExtern isThumb
                    isReferencedDynamically isNoDeadStrip isWeakDefCanBeHidden st = Inr (None, st')
              \<and> find_sym st' name
                  = Some (s\<lparr>isUsedInRegularObj := isUsedInRegularObj s \<or> kind f = ObjKind\<rparr>)
              \<and> dupSymDiags st' = dupSymDiags st
              \<and> numReferencedSymbols st' = numReferencedSymbols st)
         else
           (\<exists>st'. addDefined env name (Some f) sec val sz isWeakDef isPrivateExtern isThumb
                    isReferencedDynamically isNoDeadStrip isWeakDefCanBeHidden st
                    = Inr (Some name, st')
              \<and> find_sym st' name
                  = Some \<lparr>symName = name, symFile = Some f,
                          isUsedInRegularObj = (isUsedInRegularObj s \<or> kind f = ObjKind),
                          body = Defined (mkDefined env sec val sz isWeakDef isPrivateExtern isThumb
                                   isReferencedDynamically isNoDeadStrip (\<not> isWeakDef \<and> w)
                                   isWeakDefCanBeHidden)\<rparr>
              \<and> dupSymDiags st' = dupSymDiags st
              \<and> numReferencedSymbols st' = numReferencedSymbols (unreference s st))"
  using assms
  by (auto simp: addDefined_def insert_sym_hit Let_def table_defs table_simps
           split: option.splits)

theorem addDefined_over_dylib_witness:
  "slotAfter ''_f'' scenarioS1
     = Some \<lparr>symName = ''_f'', symFile = Some objB, isUsedInRegularObj = True,
             body = Defined (mkDefined baseEnv (Some 0) 16 4 False False False False False True
                      False)\<rparr>
   \<and> map_option dupSymDiags (stateAfter scenarioS1) = Some []
   \<and> map_option (\<lambda>st. numReferencedSymbols st dylibA) (stateAfter scenarioS1)
     = Some (numReferencedSymbols dylibTable dylibA - 1)"
  using addDefined_over_dylib [where st = dylibTable and name = "''_f''"
      and s = "dylibSym ''_f'' dylibA True" and w = True and r = Unreferenced and t = False
      and f = objB and sec = "Some 0" and env = baseEnv and val = 16 and sz = 4
      and isWeakDef = False and isPrivateExtern = False and isThumb = False
      and isReferencedDynamically = False and isNoDeadStrip = False
      and isWeakDefCanBeHidden = False]
  by (auto simp: scenarioS1_def find_sym_def dylibTable_def addDylib_def emptyState_def
        dylibSym_def slotAfter_def stateAfter_def objB_def dylibA_def unreference_def)

theorem dylib_kept_against_lazy_member:
  "map_sum id fst
     (addDefined baseEnv ''_f'' (Some memberM) None 0 0 False False False False False False
        dylibTable) = Inr None
   \<and> map_option body
       (slotAfter ''_f''
          (addDefined baseEnv ''_f'' (Some memberM) None 0 0 False False False False False False
             dylibTable))
     = Some (DylibSymbol True Unreferenced False)"
  by (simp add: addDefined_def insert_sym_def Let_def table_defs dylibTable_def addDylib_def
        emptyState_def dylibA_def memberM_def baseEnv_def slotAfter_def)

lemma addDefined_over_common:
  assumes "find_sym st name = Some s" and "body s = CommonSymbol csz cal cpe"
    and "symFile s = Some cf" and "bitcodeHasNoSection (Some f) sec"
  shows "if lazyArchiveMember cf \<and> lazyArchiveMember f \<and> priority f < priority cf then
           (\<exists>st'. addDefined env name (Some f) sec val sz isWeakDef isPrivateExtern isThumb
                    isReferencedDynamically isNoDeadStrip isWeakDefCanBeHidden st = Inr (None, st')
              \<and> find_sym st' name
                  = Some (s\<lparr>isUsedInRegularObj := isUsedInRegularObj s \<or> kind f = ObjKind\<rparr>))
         else
           (\<exists>st'. addDefined env name (Some f) sec val sz isWeakDef isPrivateExtern isThumb
                    isReferencedDynamically isNoDeadStrip isWeakDefCanBeHidden st
                    = Inr (Some name, st')
              \<and> find_sym st' name
                  = Some \<lparr>symName = name, symFile = Some f,
                          isUsedInRegularObj = (isUsedInRegularObj s \<or> kind f = ObjKind),
                          body = Defined (mkDefined env sec val sz isWeakDef isPrivateExtern isThumb
                                   isReferencedDynamically isNoDeadStrip False
                                   isWeakDefCanBeHidden)\<rparr>)"
  using assms unfolding table_defs
  by (auto simp: addDefined_def insert_sym_hit Let_def table_defs table_simps
           split: option.splits)

lemma addDefined_result:
  assumes "addDefined env name incoming sec val sz isWeakDef isPrivateExtern isThumb
             isReferencedDynamically isNoDeadStrip isWeakDefCanBeHidden st = Inr (p, st')"
  shows "case p of
           Some n \<Rightarrow> n = name \<and> (\<exists>s' d. find_sym st' name = Some s' \<and> body s' = Defined d)
         | None \<Rightarrow>
             (\<exists>s f. find_sym st name = Some s \<and> incoming = Some f \<and> lazyArchiveMember f
                \<and> (is_DylibSymbol (body s)
                    \<or> (is_CommonSymbol (body s)
                        \<and> (\<exists>cf. symFile s = Some cf \<and> lazyArchiveMember cf
                                  \<and> priority f < priority cf)))
                \<and> find_sym st' name
                    = Some (s\<lparr>isUsedInRegularObj := isUsedInRegularObj s \<or> kind f = ObjKind\<rparr>))"
proof (cases "map_of (symMap st) name")
  case None
  with assms show ?thesis
    unfolding table_defs
    by (auto simp: addDefined_def insert_sym_miss Let_def table_defs table_simps
             split: if_splits)
next
  case (Some s)
  with assms show ?thesis
    unfolding table_defs
    by (cases "body s")
       (auto simp: addDefined_def insert_sym_hit Let_def table_defs table_simps
             split: if_splits option.splits)
qed

text \<open>
  Claim C6, as amended. On a slot that holds a \<^verbatim>\<open>CommonSymbol\<close> (its file and the
  incoming file not null), the incoming \<^verbatim>\<open>Defined\<close> replaces it, unless both files
  are lazy archive members and the incoming file has the lower priority: then the slot
  keeps the common symbol and the call returns null. Every call that returns gives either
  the pointer to its slot, which then holds a \<^verbatim>\<open>Defined\<close>, or null; it gives null only
  for an incoming lazy archive member that meets a \<^verbatim>\<open>DylibSymbol\<close>, or a
  \<^verbatim>\<open>CommonSymbol\<close> of a lazy archive member whose priority number is greater than
  its own, and the slot then keeps that symbol.
\<close>

theorem addDefined_over_common_and_result:
  "(find_sym st name = Some s \<and> body s = CommonSymbol csz cal cpe \<and> symFile s = Some cf
      \<and> bitcodeHasNoSection (Some f) sec \<longrightarrow>
      (if lazyArchiveMember cf \<and> lazyArchiveMember f \<and> priority f < priority cf then
         (\<exists>st'. addDefined env name (Some f) sec val sz isWeakDef isPrivateExtern isThumb
                  isReferencedDynamically isNoDeadStrip isWeakDefCanBeHidden st = Inr (None, st')
            \<and> find_sym st' name
                = Some (s\<lparr>isUsedInRegularObj := isUsedInRegularObj s \<or> kind f = ObjKind\<rparr>))
       else
         (\<exists>st'. addDefined env name (Some f) sec val sz isWeakDef isPrivateExtern isThumb
                  isReferencedDynamically isNoDeadStrip isWeakDefCanBeHidden st
                  = Inr (Some name, st')
            \<and> find_sym st' name
                = Some \<lparr>symName = name, symFile = Some f,
                        isUsedInRegularObj = (isUsedInRegularObj s \<or> kind f = ObjKind),
                        body = Defined (mkDefined env sec val sz isWeakDef isPrivateExtern isThumb
                                 isReferencedDynamically isNoDeadStrip False
                                 isWeakDefCanBeHidden)\<rparr>)))
   \<and> (addDefined env2 name2 incoming sec2 val2 sz2 wk2 pe2 th2 rd2 nds2 wch2 st2 = Inr (p, st3)
        \<longrightarrow>
        (case p of
           Some n \<Rightarrow> n = name2 \<and> (\<exists>s' d. find_sym st3 name2 = Some s' \<and> body s' = Defined d)
         | None \<Rightarrow>
             (\<exists>s2 f2. find_sym st2 name2 = Some s2 \<and> incoming = Some f2 \<and> lazyArchiveMember f2
                \<and> (is_DylibSymbol (body s2)
                    \<or> (is_CommonSymbol (body s2)
                        \<and> (\<exists>cf2. symFile s2 = Some cf2 \<and> lazyArchiveMember cf2
                                  \<and> priority f2 < priority cf2)))
                \<and> find_sym st3 name2
                    = Some (s2\<lparr>isUsedInRegularObj :=
                                 isUsedInRegularObj s2 \<or> kind f2 = ObjKind\<rparr>))))"
proof (rule conjI)
  show "find_sym st name = Some s \<and> body s = CommonSymbol csz cal cpe \<and> symFile s = Some cf
      \<and> bitcodeHasNoSection (Some f) sec \<longrightarrow>
      (if lazyArchiveMember cf \<and> lazyArchiveMember f \<and> priority f < priority cf then
         (\<exists>st'. addDefined env name (Some f) sec val sz isWeakDef isPrivateExtern isThumb
                  isReferencedDynamically isNoDeadStrip isWeakDefCanBeHidden st = Inr (None, st')
            \<and> find_sym st' name
                = Some (s\<lparr>isUsedInRegularObj := isUsedInRegularObj s \<or> kind f = ObjKind\<rparr>))
       else
         (\<exists>st'. addDefined env name (Some f) sec val sz isWeakDef isPrivateExtern isThumb
                  isReferencedDynamically isNoDeadStrip isWeakDefCanBeHidden st
                  = Inr (Some name, st')
            \<and> find_sym st' name
                = Some \<lparr>symName = name, symFile = Some f,
                        isUsedInRegularObj = (isUsedInRegularObj s \<or> kind f = ObjKind),
                        body = Defined (mkDefined env sec val sz isWeakDef isPrivateExtern isThumb
                                 isReferencedDynamically isNoDeadStrip False
                                 isWeakDefCanBeHidden)\<rparr>))"
  proof (intro impI, elim conjE)
    assume "find_sym st name = Some s" and "body s = CommonSymbol csz cal cpe"
      and "symFile s = Some cf" and "bitcodeHasNoSection (Some f) sec"
    then show "if lazyArchiveMember cf \<and> lazyArchiveMember f \<and> priority f < priority cf then
         (\<exists>st'. addDefined env name (Some f) sec val sz isWeakDef isPrivateExtern isThumb
                  isReferencedDynamically isNoDeadStrip isWeakDefCanBeHidden st = Inr (None, st')
            \<and> find_sym st' name
                = Some (s\<lparr>isUsedInRegularObj := isUsedInRegularObj s \<or> kind f = ObjKind\<rparr>))
       else
         (\<exists>st'. addDefined env name (Some f) sec val sz isWeakDef isPrivateExtern isThumb
                  isReferencedDynamically isNoDeadStrip isWeakDefCanBeHidden st
                  = Inr (Some name, st')
            \<and> find_sym st' name
                = Some \<lparr>symName = name, symFile = Some f,
                        isUsedInRegularObj = (isUsedInRegularObj s \<or> kind f = ObjKind),
                        body = Defined (mkDefined env sec val sz isWeakDef isPrivateExtern isThumb
                                 isReferencedDynamically isNoDeadStrip False
                                 isWeakDefCanBeHidden)\<rparr>)"
      by (rule addDefined_over_common)
  qed
next
  show "addDefined env2 name2 incoming sec2 val2 sz2 wk2 pe2 th2 rd2 nds2 wch2 st2 = Inr (p, st3)
        \<longrightarrow>
        (case p of
           Some n \<Rightarrow> n = name2 \<and> (\<exists>s' d. find_sym st3 name2 = Some s' \<and> body s' = Defined d)
         | None \<Rightarrow>
             (\<exists>s2 f2. find_sym st2 name2 = Some s2 \<and> incoming = Some f2 \<and> lazyArchiveMember f2
                \<and> (is_DylibSymbol (body s2)
                    \<or> (is_CommonSymbol (body s2)
                        \<and> (\<exists>cf2. symFile s2 = Some cf2 \<and> lazyArchiveMember cf2
                                  \<and> priority f2 < priority cf2)))
                \<and> find_sym st3 name2
                    = Some (s2\<lparr>isUsedInRegularObj :=
                                 isUsedInRegularObj s2 \<or> kind f2 = ObjKind\<rparr>)))"
    by (intro impI) (rule addDefined_result)
qed

theorem addDefined_over_common_and_result_witness:
  "slotAfter ''_c''
     (addDefined baseEnv ''_c'' (Some objB) None 0 0 False False False False False False
        (tableOf [(''_c'', commonSym ''_c'' objA)]))
   = Some (definedSym ''_c'' (Some objB) False)
   \<and> map_sum id fst
       (addDefined baseEnv ''_c'' (Some objB) None 0 0 False False False False False False
          (tableOf [(''_c'', commonSym ''_c'' objA)])) = Inr (Some ''_c'')"
  using addDefined_over_common_and_result [where st = "tableOf [(''_c'', commonSym ''_c'' objA)]"
      and name = "''_c''" and s = "commonSym ''_c'' objA" and csz = 8 and cal = 3
      and cpe = False and cf = objA and f = objB and sec = None and env = baseEnv
      and val = 0 and sz = 0 and isWeakDef = False and isPrivateExtern = False
      and isThumb = False and isReferencedDynamically = False and isNoDeadStrip = False
      and isWeakDefCanBeHidden = False, THEN conjunct1]
  by (auto simp: find_sym_def tableOf_def commonSym_def definedSym_def slotAfter_def
        objA_def objB_def)

theorem common_kept_and_null_returned:
  "map_sum id fst
     (addDefined baseEnv ''_c'' (Some memberM) None 0 0 False False False False False False
        (tableOf [(''_c'', commonSym ''_c'' memberN)])) = Inr None
   \<and> slotAfter ''_c''
       (addDefined baseEnv ''_c'' (Some memberM) None 0 0 False False False False False False
          (tableOf [(''_c'', commonSym ''_c'' memberN)]))
     = Some (commonSym ''_c'' memberN)"
  by (simp add: addDefined_def insert_sym_def Let_def table_defs emptyState_def tableOf_def
        commonSym_def memberM_def memberN_def baseEnv_def slotAfter_def)

text \<open>
  Claim C10. On a slot that holds a \<^verbatim>\<open>DylibSymbol\<close>, \<^verbatim>\<open>addDefined\<close> reads
  \<^verbatim>\<open>file->lazyArchiveMember\<close> without a null check: the call ends in a null-pointer
  read exactly when the file is null, and every \<^verbatim>\<open>addSynthetic\<close> call on such a name
  does, since it passes the null file.
\<close>

theorem addDefined_null_file_on_dylib:
  assumes "find_sym st name = Some s" and "body s = DylibSymbol w r t"
  shows "((addDefined env name incoming sec val sz isWeakDef isPrivateExtern isThumb
            isReferencedDynamically isNoDeadStrip isWeakDefCanBeHidden st = Inl NullDeref)
           = (incoming = None))
       \<and> addSynthetic env name sec val isPrivateExtern inclInSymtab isReferencedDynamically st
           = Inl NullDeref"
  using assms unfolding find_sym_def
  by (auto simp: addDefined_def addSynthetic_def insert_sym_hit Let_def split: option.splits)

theorem addDefined_null_file_on_dylib_witness:
  "addDefined baseEnv ''_f'' None None 0 0 False False False False False False dylibTable
     = Inl NullDeref
   \<and> addSynthetic baseEnv ''_f'' None 0 True False False dylibTable = Inl NullDeref"
  using addDefined_null_file_on_dylib [where st = dylibTable and name = "''_f''"
      and s = "dylibSym ''_f'' dylibA True" and w = True and r = Unreferenced and t = False
      and incoming = None and env = baseEnv and sec = None and val = 0]
  by (simp add: find_sym_def dylibTable_def addDylib_def emptyState_def dylibSym_def)


section \<open>References\<close>

lemma addUndefined_step:
  assumes "find_sym st name = Some s" and "refStateOf (body s) = Some r"
  shows "\<exists>s'. find_sym (snd (addUndefined name incoming isWeakRef st)) name = Some s'
            \<and> refStateOf (body s') = Some (max r (requested (incoming, isWeakRef)))"
  using assms
  by (cases "body s")
     (auto simp: addUndefined_def insert_sym_hit Let_def table_defs table_simps requested_def)

lemma addUndefinedAll_fold:
  assumes "find_sym st name = Some s" and "refStateOf (body s) = Some r"
  shows "\<exists>s'. find_sym (addUndefinedAll name calls st) name = Some s'
            \<and> refStateOf (body s') = Some (fold max (map requested calls) r)"
  using assms
proof (induction calls arbitrary: st s r)
  case Nil
  then show ?case by simp
next
  case (Cons c cs)
  from addUndefined_step [OF Cons.prems, of "fst c" "snd c"]
  obtain s1 where s1: "find_sym (snd (addUndefined name (fst c) (snd c) st)) name = Some s1"
    "refStateOf (body s1) = Some (max r (requested c))"
    by auto
  from Cons.IH [OF s1] show ?case
    by (simp add: max.commute)
qed

lemma fold_max_Max: "fold max xs (r :: RefState) = Max (set (r # xs))"
  by (rule Max.set_eq_fold [symmetric])

lemma addUndefinedAll_Max:
  assumes "find_sym st name = Some s" and "refStateOf (body s) = Some r"
  shows "map_option (\<lambda>x. refStateOf (body x)) (find_sym (addUndefinedAll name calls st) name)
           = Some (Some (Max (set (r # map requested calls))))"
proof -
  from addUndefinedAll_fold [OF assms, of calls]
  obtain s' where "find_sym (addUndefinedAll name calls st) name = Some s'"
    and "refStateOf (body s') = Some (fold max (map requested calls) r)"
    by auto
  then show ?thesis
    by (simp add: fold_max_Max)
qed

text \<open>
  Claim C7. On a slot that holds an \<^verbatim>\<open>Undefined\<close> or a \<^verbatim>\<open>DylibSymbol\<close>, after any
  sequence of \<^verbatim>\<open>addUndefined\<close> calls on its name the slot carries the maximum, in the
  order \<open>Unreferenced < Weak < Strong\<close>, of its prior \<open>refState\<close> and all requested
  states. The state never goes down along the sequence (after every prefix it is the
  maximum over that prefix, which is at most the final one), and it is the same for every
  reordering of the calls.
\<close>

theorem addUndefined_refState_max:
  assumes "find_sym st name = Some s" and "refStateOf (body s) = Some r"
  shows "map_option (\<lambda>x. refStateOf (body x)) (find_sym (addUndefinedAll name calls st) name)
           = Some (Some (Max (set (r # map requested calls))))
       \<and> r \<le> Max (set (r # map requested calls))
       \<and> (\<forall>k. map_option (\<lambda>x. refStateOf (body x))
                 (find_sym (addUndefinedAll name (take k calls) st) name)
               = Some (Some (Max (set (r # map requested (take k calls)))))
              \<and> Max (set (r # map requested (take k calls)))
                  \<le> Max (set (r # map requested calls)))
       \<and> (\<forall>calls'. mset calls' = mset calls \<longrightarrow>
              map_option (\<lambda>x. refStateOf (body x))
                (find_sym (addUndefinedAll name calls' st) name)
              = Some (Some (Max (set (r # map requested calls)))))"
proof (intro conjI allI impI)
  show "map_option (\<lambda>x. refStateOf (body x)) (find_sym (addUndefinedAll name calls st) name)
          = Some (Some (Max (set (r # map requested calls))))"
    by (rule addUndefinedAll_Max [OF assms])
  show "r \<le> Max (set (r # map requested calls))"
    by simp
  show "map_option (\<lambda>x. refStateOf (body x))
          (find_sym (addUndefinedAll name (take k calls) st) name)
        = Some (Some (Max (set (r # map requested (take k calls)))))" for k
    by (rule addUndefinedAll_Max [OF assms])
  show "Max (set (r # map requested (take k calls))) \<le> Max (set (r # map requested calls))"
    for k
  proof (rule Max_mono)
    have "set (take k calls) \<subseteq> set calls" by (rule set_take_subset)
    then show "set (r # map requested (take k calls)) \<subseteq> set (r # map requested calls)"
      by auto
  qed simp_all
  show "map_option (\<lambda>x. refStateOf (body x)) (find_sym (addUndefinedAll name calls' st) name)
          = Some (Some (Max (set (r # map requested calls))))"
    if "mset calls' = mset calls" for calls'
  proof -
    from that have "set calls' = set calls" by (rule mset_eq_setD)
    then have "set (r # map requested calls') = set (r # map requested calls)" by simp
    with addUndefinedAll_Max [OF assms, of calls'] show ?thesis by simp
  qed
qed

theorem addUndefined_refState_max_witness:
  "map_option (\<lambda>x. refStateOf (body x))
     (find_sym
        (addUndefinedAll ''_f'' [(Some objA, True), (None, False), (Some objB, True)] dylibTable)
        ''_f'')
   = Some (Some Strong)"
  using addUndefined_refState_max [where st = dylibTable and name = "''_f''"
      and s = "dylibSym ''_f'' dylibA True" and r = Unreferenced
      and calls = "[(Some objA, True), (None, False), (Some objB, True)]"]
  by (simp add: find_sym_def dylibTable_def addDylib_def emptyState_def dylibSym_def
        requested_def less_eq_RefState_def max_def)

text \<open>
  Claim C4, as amended. \<^verbatim>\<open>addUndefined\<close> on a name whose slot holds a
  \<^verbatim>\<open>LazyArchive\<close> calls no fetch hook: the log of fetch calls is unchanged and the
  slot still holds the same \<^verbatim>\<open>LazyArchive\<close> (only the sticky flag may be set).
  \<^verbatim>\<open>addUndefined\<close> has a branch for a \<^verbatim>\<open>DylibSymbol\<close> and one for an
  \<^verbatim>\<open>Undefined\<close>, and none for the lazy variants.
\<close>

theorem addUndefined_on_lazy_archive:
  assumes "find_sym st name = Some s" and "body s = LazyArchive cookie"
  shows "\<exists>st'. addUndefined name incoming isWeakRef st = (name, st')
           \<and> fetchLog st' = fetchLog st
           \<and> find_sym st' name
               = Some (s\<lparr>isUsedInRegularObj := isUsedInRegularObj s \<or> nullOrObj incoming\<rparr>)"
  using assms
  by (auto simp: addUndefined_def insert_sym_hit Let_def table_defs table_simps)

theorem addUndefined_on_lazy_archive_witness:
  "fetchLog (snd (addUndefined ''_h'' (Some objB) False
                    (tableOf [(''_h'', lazySym ''_h'' archiveL 7)]))) = []
   \<and> find_sym (snd (addUndefined ''_h'' (Some objB) False
                      (tableOf [(''_h'', lazySym ''_h'' archiveL 7)]))) ''_h''
     = Some ((lazySym ''_h'' archiveL 7)\<lparr>isUsedInRegularObj := True\<rparr>)"
  using addUndefined_on_lazy_archive [where st = "tableOf [(''_h'', lazySym ''_h'' archiveL 7)]"
      and name = "''_h''" and s = "lazySym ''_h'' archiveL 7" and cookie = 7
      and incoming = "Some objB" and isWeakRef = False]
  by (auto simp: find_sym_def tableOf_def lazySym_def emptyState_def objB_def)

theorem lazy_pull_fetches_nothing:
  "map_option fetchLog (stateAfter scenarioS4) = Some []
   \<and> map_option body (slotAfter ''_h'' scenarioS4) = Some (LazyArchive 7)"
  by (simp add: scenarioS4_def addLazyArchive_def addUndefined_def insert_sym_def Let_def
        table_defs emptyState_def archiveL_def objB_def slotAfter_def stateAfter_def
        andThen_def)

section \<open>Reporting twice\<close>

lemma reportUndefinedSymbol_returns:
  assumes "undefinedSymbolTreatment env = error \<or> undefinedSymbolTreatment env = warning"
  shows "\<exists>d. reportUndefinedSymbol env st sym0 locations correctSpelling = Inr d"
  using assms
  by (auto simp: reportUndefinedSymbol_def Let_def split: prod.splits)

lemma reportUndefs_returns:
  assumes "undefinedSymbolTreatment env = error \<or> undefinedSymbolTreatment env = warning"
  shows "\<exists>out. reportUndefs env st i pool = Inr out \<and> length out = length pool"
proof (induction pool arbitrary: i)
  case Nil
  show ?case by simp
next
  case (Cons undef rest)
  from reportUndefinedSymbol_returns [OF assms]
  obtain d where "reportUndefinedSymbol env st (fst undef) (snd undef) (i < 2) = Inr d"
    by blast
  moreover from Cons.IH [of "i + 1"]
  obtain ds where "reportUndefs env st (i + 1) rest = Inr ds" and "length ds = length rest"
    by blast
  ultimately show ?case by simp
qed

text \<open>
  Claim C8, as amended. \<^verbatim>\<open>reportPendingUndefinedSymbols\<close> (with the treatment
  \<^verbatim>\<open>error\<close> or \<^verbatim>\<open>warning\<close>, the only ones under which it reports) emits one
  diagnostic per pooled symbol and clears the pool, so a second call in a row emits
  nothing. \<^verbatim>\<open>reportPendingDuplicateSymbols\<close> leaves the state as it found it: it does
  not clear its pool, and a second call in a row emits the same diagnostics as the first.
\<close>

theorem report_twice:
  "(undefinedSymbolTreatment env = error \<or> undefinedSymbolTreatment env = warning \<longrightarrow>
      (\<exists>out. reportPendingUndefinedSymbols env st = Inr (out, st\<lparr>undefs := []\<rparr>)
         \<and> length out = length (undefs st)
         \<and> reportPendingUndefinedSymbols env (st\<lparr>undefs := []\<rparr>)
             = Inr ([], st\<lparr>undefs := []\<rparr>)))
   \<and> reportPendingDuplicateSymbols env st
       = (concat (map (duplicateMessage env) (dupSymDiags st)), st)
   \<and> fst (reportPendingDuplicateSymbols env (snd (reportPendingDuplicateSymbols env st)))
       = fst (reportPendingDuplicateSymbols env st)"
proof (intro conjI impI)
  assume "undefinedSymbolTreatment env = error \<or> undefinedSymbolTreatment env = warning"
  from reportUndefs_returns [OF this, of st 0 "undefs st"]
  obtain out where "reportUndefs env st 0 (undefs st) = Inr out"
    and "length out = length (undefs st)"
    by blast
  then show "\<exists>out. reportPendingUndefinedSymbols env st = Inr (out, st\<lparr>undefs := []\<rparr>)
         \<and> length out = length (undefs st)
         \<and> reportPendingUndefinedSymbols env (st\<lparr>undefs := []\<rparr>)
             = Inr ([], st\<lparr>undefs := []\<rparr>)"
    by (simp add: reportPendingUndefinedSymbols_def)
next
  show "reportPendingDuplicateSymbols env st
          = (concat (map (duplicateMessage env) (dupSymDiags st)), st)"
    by (simp add: reportPendingDuplicateSymbols_def)
next
  show "fst (reportPendingDuplicateSymbols env (snd (reportPendingDuplicateSymbols env st)))
          = fst (reportPendingDuplicateSymbols env st)"
    by (simp add: reportPendingDuplicateSymbols_def)
qed

theorem report_twice_witness:
  "(\<exists>out. reportPendingUndefinedSymbols baseEnv pooledState
            = Inr (out, pooledState\<lparr>undefs := []\<rparr>)
      \<and> length out = 1
      \<and> reportPendingUndefinedSymbols baseEnv (pooledState\<lparr>undefs := []\<rparr>)
          = Inr ([], pooledState\<lparr>undefs := []\<rparr>))
   \<and> fst (reportPendingDuplicateSymbols baseEnv pooledState)
       = [Warn (''duplicate symbol: _g'' @ nl @ ''>>> defined in a.o'' @ nl
                @ ''>>> defined in b.o'')]"
  using report_twice [where env = baseEnv and st = pooledState]
  by (simp add: baseEnv_def pooledState_def emptyState_def duplicateMessage_def)

theorem duplicates_reported_again:
  "fst (reportPendingDuplicateSymbols baseEnv
          (snd (reportPendingDuplicateSymbols baseEnv pooledState)))
   = [Warn (''duplicate symbol: _g'' @ nl @ ''>>> defined in a.o'' @ nl
            @ ''>>> defined in b.o'')]"
  by (simp add: reportPendingDuplicateSymbols_def duplicateMessage_def baseEnv_def
        pooledState_def emptyState_def)

section \<open>The spelling suggestion\<close>

lemma suggest_all_undefined:
  assumes "\<forall>x \<in> set (symMap st). is_Undefined (body (snd x))"
  shows "suggest [] st n = None"
proof (cases "map_of (symMap st) n")
  case None
  then show ?thesis by (simp add: suggest_def find_sym_def)
next
  case (Some s)
  then have "(n, s) \<in> set (symMap st)" by (rule map_of_SomeD)
  with assms have "is_Undefined (body s)" by auto
  with Some show ?thesis by (simp add: suggest_def find_sym_def)
qed

lemma firstSuggestion_none:
  assumes "\<And>n. f n = None"
  shows "firstSuggestion f ns = None"
  by (induction ns) (simp_all add: assms)

lemma typoTable_eq:
  "symMap typoTable
     = [(''_foo'', undefinedSym ''_foo'' objA), (''__Z3foov'', undefinedSym ''__Z3foov'' objB)]"
  by (simp add: typoTable_def addUndefined_def insert_sym_def Let_def table_defs
        undefinedSym_def emptyState_def objA_def objB_def)

text \<open>
  Where a suggestion can come from: the local map, whose symbols are non-external
  definitions; the table, as a symbol that is not undefined; or, for a reference that
  does not start with \<open>__Z\<close>, the last scan of the table, which accepts any symbol whose
  name demangles to the reference.
\<close>

lemma tryEmplaceLocal_defined:
  assumes "\<forall>x \<in> set m. \<exists>d. body (snd x) = Defined d \<and> \<not> external d"
  shows "\<forall>x \<in> set (tryEmplaceLocal m so). \<exists>d. body (snd x) = Defined d \<and> \<not> external d"
proof (cases so)
  case None
  with assms show ?thesis by simp
next
  case (Some s)
  with assms show ?thesis
    by (cases "body s") auto
qed

lemma foldl_tryEmplaceLocal_defined:
  assumes "\<forall>x \<in> set m. \<exists>d. body (snd x) = Defined d \<and> \<not> external d"
  shows "\<forall>x \<in> set (foldl tryEmplaceLocal m sos). \<exists>d. body (snd x) = Defined d \<and> \<not> external d"
  using assms
proof (induction sos arbitrary: m)
  case Nil
  then show ?case by simp
next
  case (Cons so sos)
  from Cons.prems have "\<forall>x \<in> set (tryEmplaceLocal m so). \<exists>d. body (snd x) = Defined d \<and> \<not> external d"
    by (rule tryEmplaceLocal_defined)
  then show ?case
    using Cons.IH by simp
qed

lemma localDefinedMap_defined:
  assumes "(n, s) \<in> set (localDefinedMap env sym0)"
  shows "\<exists>d. body s = Defined d \<and> \<not> external d"
proof -
  have start: "\<forall>x \<in> set ([] :: (string \<times> Symbol) list).
                 \<exists>d. body (snd x) = Defined d \<and> \<not> external d"
    by simp
  from assms obtain f where "(n, s) \<in> set (foldl tryEmplaceLocal [] (fileSymbols env f))"
    by (auto simp: localDefinedMap_def split: option.splits if_splits)
  with foldl_tryEmplaceLocal_defined [OF start] show ?thesis
    by fastforce
qed

lemma suggest_Some:
  assumes "suggest m st n = Some s"
  shows "(n, s) \<in> set m \<or> ((n, s) \<in> set (symMap st) \<and> \<not> is_Undefined (body s))"
  using assms
  by (auto simp: suggest_def find_sym_def split: option.splits if_splits dest: map_of_SomeD)

lemma firstSuggestion_Some:
  assumes "firstSuggestion f ns = Some s"
  shows "\<exists>n. f n = Some s"
  using assms
  by (induction ns) (auto split: option.splits)

lemma find_SomeD:
  assumes "List.find P xs = Some x"
  shows "P x \<and> x \<in> set xs"
  using assms
  by (induction xs) (auto split: if_splits)

lemma getAlternativeSpelling_sources:
  assumes "getAlternativeSpelling env st sym0 pre_hint post_hint = (Some s, pre', post')"
  shows "(\<exists>n. (n, s) \<in> set (localDefinedMap env sym0))
       \<or> (\<exists>n. (n, s) \<in> set (symMap st) \<and> \<not> is_Undefined (body s))
       \<or> (take 3 (symName sym0) \<noteq> ''__Z'' \<and> (\<exists>n. (n, s) \<in> set (symMap st))
           \<and> canSuggestExternCForCXX env
                (if take 1 (symName sym0) = ''_'' then drop 1 (symName sym0) else symName sym0)
                (symName s))"
proof (cases "firstSuggestion (suggest (localDefinedMap env sym0) st) (typoCandidates (symName sym0))")
  case (Some s1)
  with assms have "s1 = s"
    by (simp add: getAlternativeSpelling_def Let_def)
  with Some obtain n where "suggest (localDefinedMap env sym0) st n = Some s"
    using firstSuggestion_Some by blast
  from suggest_Some [OF this] show ?thesis by blast
next
  case noTypo: None
  show ?thesis
  proof (cases "List.find (\<lambda>it. equals_insensitive (symName sym0) (fst it)) (localDefinedMap env sym0)")
    case (Some it)
    with assms noTypo have "snd it = s"
      by (simp add: getAlternativeSpelling_def Let_def)
    moreover from find_SomeD [OF Some] have "it \<in> set (localDefinedMap env sym0)" by simp
    ultimately have "(fst it, s) \<in> set (localDefinedMap env sym0)" by auto
    then show ?thesis by blast
  next
    case noLocalCase: None
    show ?thesis
    proof (cases "List.find (\<lambda>it. \<not> is_Undefined (body (snd it))
                     \<and> equals_insensitive (symName sym0) (symName (snd it))) (symMap st)")
      case (Some it)
      with assms noTypo noLocalCase have "snd it = s"
        by (simp add: getAlternativeSpelling_def Let_def)
      moreover from find_SomeD [OF Some]
      have "it \<in> set (symMap st)" and "\<not> is_Undefined (body (snd it))" by simp_all
      ultimately have "(fst it, s) \<in> set (symMap st) \<and> \<not> is_Undefined (body s)" by auto
      then show ?thesis by blast
    next
      case noCase: None
      show ?thesis
      proof (cases "take 3 (symName sym0) = ''__Z''")
        case True
        with assms noTypo noLocalCase noCase
        obtain buf where "suggest (localDefinedMap env sym0) st (''_'' @ buf) = Some s"
          by (auto simp: getAlternativeSpelling_def Let_def split: option.splits)
        from suggest_Some [OF this] show ?thesis by blast
      next
        case False
        let ?ref = "if take 1 (symName sym0) = ''_'' then drop 1 (symName sym0)
                    else symName sym0"
        show ?thesis
        proof (cases "List.find (\<lambda>it. canSuggestExternCForCXX env ?ref (fst it))
                        (localDefinedMap env sym0)")
          case (Some it)
          with assms noTypo noLocalCase noCase False have "snd it = s"
            by (simp add: getAlternativeSpelling_def Let_def)
          moreover from find_SomeD [OF Some] have "it \<in> set (localDefinedMap env sym0)"
            by simp
          ultimately have "(fst it, s) \<in> set (localDefinedMap env sym0)" by auto
          then show ?thesis by blast
        next
          case None
          with assms noTypo noLocalCase noCase False
          obtain it where it: "List.find (\<lambda>it. canSuggestExternCForCXX env ?ref
                                 (symName (snd it))) (symMap st) = Some it"
            and "snd it = s"
            by (auto simp: getAlternativeSpelling_def Let_def split: option.splits)
          moreover from find_SomeD [OF it]
          have "it \<in> set (symMap st)"
            and "canSuggestExternCForCXX env ?ref (symName (snd it))" by simp_all
          ultimately have "(fst it, s) \<in> set (symMap st)"
            and "canSuggestExternCForCXX env ?ref (symName s)" by auto
          with False show ?thesis by blast
        qed
      qed
    qed
  qed
qed

text \<open>
  Claim C9, at the input where it fails. The table holds two undefined references,
  \<open>_foo\<close> and \<open>__Z3foov\<close>, whose function name is \<open>foo\<close>. For the reference \<open>_foo\<close>
  no name at edit distance one and no case variant exists as a symbol that is not
  undefined, and the last scan, over the global table, compares demangled names without
  looking at the variant: the suggestion is the undefined symbol \<open>__Z3foov\<close>.
\<close>

theorem getAlternativeSpelling_suggests_undefined:
  "getAlternativeSpelling baseEnv typoTable (undefinedSym ''_foo'' objA) '': '' []
     = (Some (undefinedSym ''__Z3foov'' objB), '' to declare '', '' as '' @ externC @ ''?'')
   \<and> find_sym typoTable ''_foo'' = Some (undefinedSym ''_foo'' objA)
   \<and> find_sym typoTable ''__Z3foov'' = Some (undefinedSym ''__Z3foov'' objB)
   \<and> is_Undefined (body (undefinedSym ''__Z3foov'' objB))"
proof -
  have "\<forall>x \<in> set (symMap typoTable). is_Undefined (body (snd x))"
    by (simp add: typoTable_eq undefinedSym_def)
  then have "suggest [] typoTable n = None" for n
    by (rule suggest_all_undefined)
  then have none: "firstSuggestion (suggest [] typoTable) ns = None" for ns
    by (rule firstSuggestion_none)
  have local: "localDefinedMap baseEnv (undefinedSym ''_foo'' objA) = []"
    by (simp add: localDefinedMap_def undefinedSym_def baseEnv_def objA_def)
  show ?thesis
    unfolding getAlternativeSpelling_def Let_def local none
    by (simp add: typoTable_eq find_sym_def canSuggestExternCForCXX_def undefinedSym_def
          baseEnv_def)
qed


end
